theory Spec2Isabelle
  imports Main "HOL-Library.Sublist"
begin

section \<open>Values shared by the RPC methods of \<open>api.ts\<close>\<close>

text \<open>
  The data attached to an execution exception (\<open>execException.data\<close>). The source reads
  its \<open>hash\<close> field and stores the object whole; the remaining fields are kept opaque.
\<close>

record exec_data =
  data_hash :: string
  data_rest :: string

text \<open>An execution exception: a JavaScript \<open>Error\<close> with a \<open>data\<close> property.\<close>

record exec_exception =
  exc_name :: string
  exc_message :: string
  exc_data :: exec_data

text \<open>A mined transaction, as far as \<open>assertExceptionalTransactions\<close> reads it.\<close>

record typed_transaction =
  tx_hash :: string
  execException :: "exec_exception option"

text \<open>
  What a method throws: \<open>new Error(message)\<close>, optionally carrying a \<open>data\<close> object keyed
  by strings, the \<open>TypeError\<close> of a property read on \<open>null\<close>/\<open>undefined\<close>, or the
  \<open>ReferenceError\<close> of an identifier that nothing declares.
\<close>

datatype js_error =
  Error string "string \<rightharpoonup> exec_data"
  | TypeError string
  | ReferenceError string

fun err_message :: "js_error \<Rightarrow> string" where
  "err_message (Error m d) = m"
| "err_message (TypeError m) = m"
| "err_message (ReferenceError m) = m"

fun err_data :: "js_error \<Rightarrow> (string \<rightharpoonup> exec_data)" where
  "err_data (Error m d) = d"
| "err_data (TypeError m) = Map.empty"
| "err_data (ReferenceError m) = Map.empty"

definition plain_error :: "string \<Rightarrow> js_error" where
  "plain_error m = Error m Map.empty"

definition newline :: string where
  "newline = [CHR 0x0A]"

text \<open>\<open>Array.prototype.join\<close> on an array of strings.\<close>

fun join :: "string \<Rightarrow> string list \<Rightarrow> string" where
  "join sep [] = []"
| "join sep [x] = x"
| "join sep (x # y # ys) = x @ sep @ join sep (y # ys)"

text \<open>
  \<open>Error.prototype.toString\<close>, which the template literal \<open>`${transaction.execException}`\<close>
  calls: the name, a colon and the message, or the one of them that is not empty.
\<close>

definition error_toString :: "exec_exception \<Rightarrow> string" where
  "error_toString e =
     (if exc_name e = [] then exc_message e
      else if exc_message e = [] then exc_name e
      else exc_name e @ '': '' @ exc_message e)"

text \<open>Truthiness of a variable that holds \<open>null\<close> or a string.\<close>

definition js_truthy :: "string option \<Rightarrow> bool" where
  "js_truthy b = (case b of None \<Rightarrow> False | Some s \<Rightarrow> s \<noteq> [])"

section \<open>\<open>assertExceptionalTransactions\<close>\<close>

text \<open>
  The three variables the \<open>forEach\<close> callback closes over. \<open>errors\<close> is declared
  without a value, so it starts \<open>undefined\<close> (\<open>None\<close>).
\<close>

record aet_vars =
  baseError :: "string option"
  errors :: "string list option"
  data :: "string \<rightharpoonup> exec_data"

definition aet_init :: aet_vars where
  "aet_init = \<lparr>baseError = None, errors = None, data = Map.empty\<rparr>"

text \<open>
  The callback. The constants \<open>VM_EXCEPTION\<close> and \<open>VM_EXCEPTIONS\<close> are imported from
  another package and are parameters here.
\<close>

definition aet_callback ::
  "string \<Rightarrow> string \<Rightarrow> aet_vars \<Rightarrow> typed_transaction \<Rightarrow> js_error + aet_vars" where
  "aet_callback VM_EXCEPTION VM_EXCEPTIONS v transaction =
     (case execException transaction of
        None \<Rightarrow> Inr v
      | Some exc \<Rightarrow>
          if js_truthy (baseError v) then
            (case errors v of
               None \<Rightarrow> Inl (TypeError ''Cannot read properties of undefined (reading push)'')
             | Some errs \<Rightarrow>
                 Inr (v\<lparr>baseError := Some VM_EXCEPTIONS,
                        errors := Some (errs @
                          [tx_hash transaction @ '': '' @ error_toString exc @ newline]),
                        data := (data v)(data_hash (exc_data exc) \<mapsto> exc_data exc)\<rparr>))
          else
            Inr (v\<lparr>baseError := Some VM_EXCEPTION,
                   errors := Some [exc_message exc],
                   data := (data v)(data_hash (exc_data exc) \<mapsto> exc_data exc)\<rparr>))"

text \<open>\<open>Array.prototype.forEach\<close> with a callback that may throw.\<close>

fun forEach :: "('s \<Rightarrow> 'a \<Rightarrow> js_error + 's) \<Rightarrow> 'a list \<Rightarrow> 's \<Rightarrow> js_error + 's" where
  "forEach f [] s = Inr s"
| "forEach f (x # xs) s = (case f s x of Inl e \<Rightarrow> Inl e | Inr s' \<Rightarrow> forEach f xs s')"

definition assertExceptionalTransactions ::
  "string \<Rightarrow> string \<Rightarrow> typed_transaction list \<Rightarrow> js_error + unit" where
  "assertExceptionalTransactions VM_EXCEPTION VM_EXCEPTIONS transactions =
     (case forEach (aet_callback VM_EXCEPTION VM_EXCEPTIONS) transactions aet_init of
        Inl e \<Rightarrow> Inl e
      | Inr v \<Rightarrow>
          (case baseError v of
             None \<Rightarrow> Inr ()
           | Some b \<Rightarrow>
               if b = [] then Inr ()
               else
                 (case errors v of
                    None \<Rightarrow> Inl (TypeError ''Cannot read properties of undefined (reading join)'')
                  | Some errs \<Rightarrow> Inl (Error (b @ join newline errs) (data v)))))"

section \<open>\<open>evm_mine\<close>\<close>

text \<open>
  The argument of \<open>evm_mine\<close>: absent, a timestamp, or an options object with optional
  \<open>timestamp\<close> and \<open>blocks\<close> fields. Block counts are integers; the loop condition
  \<open>i < blocks\<close> is false at once for a count that is not positive.
\<close>

datatype mine_arg =
  NoArg
  | Timestamp nat
  | Options "nat option" "int option"

text \<open>
  \<open>blockchain.mine(maxTransactions, timestamp, onlyOneBlock)\<close> is not part of \<open>api.ts\<close>:
  it is a parameter that, from a blockchain state, rejects or resolves to the mined
  transactions, and gives the next state.
\<close>

type_synonym 'bc mine_fn =
  "int \<Rightarrow> nat option \<Rightarrow> bool \<Rightarrow> 'bc \<Rightarrow> (js_error + typed_transaction list) \<times> 'bc"

text \<open>One pass through the body shared by the loop and the single-block branch.\<close>

definition mine_and_assert ::
  "string \<Rightarrow> string \<Rightarrow> 'bc mine_fn \<Rightarrow> bool \<Rightarrow> nat option \<Rightarrow> 'bc \<Rightarrow> (js_error + unit) \<times> 'bc" where
  "mine_and_assert VM_EXCEPTION VM_EXCEPTIONS mine vmErrorsOnRPCResponse timestamp bc =
     (case mine (- 1) timestamp True bc of
        (Inl e, bc') \<Rightarrow> (Inl e, bc')
      | (Inr transactions, bc') \<Rightarrow>
          if vmErrorsOnRPCResponse then
            (assertExceptionalTransactions VM_EXCEPTION VM_EXCEPTIONS transactions, bc')
          else (Inr (), bc'))"

text \<open>The loop \<open>for (let i = 0; i < blocks; i++)\<close>.\<close>

function evm_mine_loop ::
  "string \<Rightarrow> string \<Rightarrow> 'bc mine_fn \<Rightarrow> bool \<Rightarrow> nat option \<Rightarrow> int \<Rightarrow> int \<Rightarrow> 'bc
     \<Rightarrow> (js_error + unit) \<times> 'bc" where
  "evm_mine_loop VM_EXCEPTION VM_EXCEPTIONS mine strict timestamp i blocks bc =
     (if i < blocks then
        (case mine_and_assert VM_EXCEPTION VM_EXCEPTIONS mine strict timestamp bc of
           (Inl e, bc') \<Rightarrow> (Inl e, bc')
         | (Inr u, bc') \<Rightarrow>
             evm_mine_loop VM_EXCEPTION VM_EXCEPTIONS mine strict timestamp (i + 1) blocks bc')
      else (Inr (), bc))"
  by pat_completeness auto
termination
  by (relation "measure (\<lambda>(ve, ves, m, st, ts, i, blocks, bc). nat (blocks - i))") auto

definition evm_mine ::
  "string \<Rightarrow> string \<Rightarrow> 'bc mine_fn \<Rightarrow> bool \<Rightarrow> mine_arg \<Rightarrow> 'bc \<Rightarrow> (js_error + string) \<times> 'bc" where
  "evm_mine VM_EXCEPTION VM_EXCEPTIONS mine vmErrorsOnRPCResponse arg bc =
     (case
        (case arg of
           Options timestamp blocks \<Rightarrow>
             evm_mine_loop VM_EXCEPTION VM_EXCEPTIONS mine vmErrorsOnRPCResponse timestamp 0
               (case blocks of None \<Rightarrow> 1 | Some b \<Rightarrow> b) bc
         | Timestamp t \<Rightarrow>
             mine_and_assert VM_EXCEPTION VM_EXCEPTIONS mine vmErrorsOnRPCResponse (Some t) bc
         | NoArg \<Rightarrow>
             mine_and_assert VM_EXCEPTION VM_EXCEPTIONS mine vmErrorsOnRPCResponse None bc)
      of
        (Inl e, bc') \<Rightarrow> (Inl e, bc')
      | (Inr u, bc') \<Rightarrow> (Inr ''0x0'', bc'))"

declare evm_mine_loop.simps [simp del]

subsection \<open>The aggregated error in closed form\<close>

text \<open>
  The transactions of a batch that carry an execution exception, in order, each with its
  exception.
\<close>

fun exceptional :: "typed_transaction list \<Rightarrow> (typed_transaction \<times> exec_exception) list" where
  "exceptional [] = []"
| "exceptional (t # ts) =
     (case execException t of None \<Rightarrow> exceptional ts | Some e \<Rightarrow> (t, e) # exceptional ts)"

definition later_line :: "typed_transaction \<times> exec_exception \<Rightarrow> string" where
  "later_line p = tx_hash (fst p) @ '': '' @ error_toString (snd p) @ newline"

fun store_data :: "(string \<rightharpoonup> exec_data) \<Rightarrow> (typed_transaction \<times> exec_exception) list \<Rightarrow> (string \<rightharpoonup> exec_data)" where
  "store_data d [] = d"
| "store_data d (p # ps) = store_data (d(data_hash (exc_data (snd p)) \<mapsto> exc_data (snd p))) ps"

subsection \<open>A batch with two failed transactions\<close>

definition example_tx_a :: typed_transaction where
  "example_tx_a = \<lparr>tx_hash = ''0xaa'',
     execException = Some \<lparr>exc_name = ''Error'', exc_message = ''revert'',
       exc_data = \<lparr>data_hash = ''0xaa'', data_rest = ''pc=7''\<rparr>\<rparr>\<rparr>"

definition example_tx_b :: typed_transaction where
  "example_tx_b = \<lparr>tx_hash = ''0xbb'',
     execException = Some \<lparr>exc_name = ''Error'', exc_message = ''out of gas'',
       exc_data = \<lparr>data_hash = ''0xbb'', data_rest = ''pc=9''\<rparr>\<rparr>\<rparr>"

definition example_tx_ok :: typed_transaction where
  "example_tx_ok = \<lparr>tx_hash = ''0xcc'', execException = None\<rparr>"

text \<open>A miner that commits the same three transactions at every call; the state counts the blocks.\<close>

definition example_mine :: "nat mine_fn" where
  "example_mine maxTransactions timestamp onlyOneBlock bc =
     (Inr [example_tx_a, example_tx_ok, example_tx_b], Suc bc)"

subsection \<open>Mining a given number of blocks\<close>

text \<open>
  What "exactly \<open>k\<close> blocks" means for a miner given as a parameter: \<open>k\<close> successive calls
  \<open>blockchain.mine(-1, timestamp, true)\<close>, each starting from the state the one before
  left. \<open>mines_cleanly\<close> says that none of these calls rejects and that, under strict
  failure reporting, none of the batches holds a failed transaction.
\<close>

fun after_mining :: "'bc mine_fn \<Rightarrow> nat option \<Rightarrow> nat \<Rightarrow> 'bc \<Rightarrow> 'bc" where
  "after_mining mine timestamp 0 bc = bc"
| "after_mining mine timestamp (Suc k) bc =
     after_mining mine timestamp k (snd (mine (- 1) timestamp True bc))"

fun mines_cleanly :: "'bc mine_fn \<Rightarrow> bool \<Rightarrow> nat option \<Rightarrow> nat \<Rightarrow> 'bc \<Rightarrow> bool" where
  "mines_cleanly mine strict timestamp 0 bc = True"
| "mines_cleanly mine strict timestamp (Suc k) bc =
     (case mine (- 1) timestamp True bc of
        (Inl e, bc') \<Rightarrow> False
      | (Inr transactions, bc') \<Rightarrow>
          (if strict then exceptional transactions = [] else True) \<and>
          mines_cleanly mine strict timestamp k bc')"

text \<open>
  Modelled from the spec: the chain and the pool. The chain is the list of the
  committed blocks' transactions; a pool transaction carries the outcome its execution
  will have.
\<close>

record chain_model =
  committed_blocks :: "typed_transaction list list"
  pending_pool :: "typed_transaction list"

text \<open>
  Modelled from the spec: \<open>blockchain.mine\<close>, which is not part of \<open>api.ts\<close>. The spec's
  miner commits one block per call from the transactions of the pool, an empty block
  when the pool is exhausted; \<open>maxTransactions = -1\<close> sets no limit.
\<close>

definition spec_mine :: "chain_model mine_fn" where
  "spec_mine maxTransactions timestamp onlyOneBlock bc =
     (Inr (pending_pool bc),
      bc\<lparr>committed_blocks := committed_blocks bc @ [pending_pool bc], pending_pool := []\<rparr>)"

definition example_chain :: chain_model where
  "example_chain = \<lparr>committed_blocks = [[]], pending_pool = [example_tx_ok]\<rparr>"

definition example_chain_failing :: chain_model where
  "example_chain_failing = \<lparr>committed_blocks = [[]], pending_pool = [example_tx_a]\<rparr>"

section \<open>Filters\<close>

text \<open>
  \<open>FilterTypes\<close> and the entries of a filter's \<open>updates\<close> array: block hashes,
  transaction hashes or logs, depending on the type of the filter.
\<close>

datatype filter_type = FilterBlock | FilterPendingTransaction | FilterLog

datatype 'l update = BlockHash string | TransactionHash string | LogEntry 'l

text \<open>
  A value of the \<open>#filters\<close> map. \<open>filter_args\<close> is the \<open>filter\<close> property, \<open>null\<close> but
  for a log filter. The \<open>unsubscribe\<close> handle is left out: it is called by
  \<open>eth_uninstallFilter\<close> only, which removes the filter from the map in the same call, so
  the listeners that are subscribed are the filters of the map.
\<close>

record ('f, 'l) rpc_filter =
  updates :: "'l update list"
  filter_args :: "'f option"
  ftype :: filter_type

text \<open>
  The state of the API object that filters use: the counter behind \<open>#getId\<close> and the
  \<open>#filters\<close> map. Its keys are \<open>Quantity\<close> values printed as strings; the model keys
  the map by the number itself.
\<close>

record ('f, 'l) filter_state =
  last_id :: nat
  filters :: "nat \<rightharpoonup> ('f, 'l) rpc_filter"

definition register_filter ::
  "('f, 'l) rpc_filter \<Rightarrow> ('f, 'l) filter_state \<Rightarrow> nat \<times> ('f, 'l) filter_state" where
  "register_filter value st =
     (let filterId = last_id st + 1
      in (filterId, st\<lparr>last_id := filterId, filters := (filters st)(filterId \<mapsto> value)\<rparr>))"

definition eth_newBlockFilter :: "('f, 'l) filter_state \<Rightarrow> nat \<times> ('f, 'l) filter_state" where
  "eth_newBlockFilter st =
     register_filter \<lparr>updates = [], filter_args = None, ftype = FilterBlock\<rparr> st"

definition eth_newPendingTransactionFilter ::
  "('f, 'l) filter_state \<Rightarrow> nat \<times> ('f, 'l) filter_state" where
  "eth_newPendingTransactionFilter st =
     register_filter \<lparr>updates = [], filter_args = None, ftype = FilterPendingTransaction\<rparr> st"

definition eth_newFilter :: "'f \<Rightarrow> ('f, 'l) filter_state \<Rightarrow> nat \<times> ('f, 'l) filter_state" where
  "eth_newFilter flt st =
     register_filter \<lparr>updates = [], filter_args = Some flt, ftype = FilterLog\<rparr> st"

text \<open>
  The events of the blockchain the three kinds of filters listen to. A \<open>blockLogs\<close>
  event carries the number of its block and the logs.
\<close>

datatype 'bl chain_event =
  BlockEvent string
  | PendingTransactionEvent string
  | BlockLogsEvent nat 'bl

text \<open>
  What the listener of one filter pushes on its \<open>updates\<close> when an event is emitted.
  \<open>parseFilterRange\<close> and \<open>blockLogs.filter\<close> (with \<open>parseFilterDetails\<close>) are imported
  helpers and are parameters.
\<close>

definition listener ::
  "('f \<Rightarrow> nat \<times> nat) \<Rightarrow> ('f \<Rightarrow> 'bl \<Rightarrow> 'l list) \<Rightarrow> ('f, 'l) rpc_filter \<Rightarrow> 'bl chain_event
     \<Rightarrow> 'l update list" where
  "listener parseFilterRange filter_logs f ev =
     (case ev of
        BlockEvent h \<Rightarrow> (if ftype f = FilterBlock then [BlockHash h] else [])
      | PendingTransactionEvent h \<Rightarrow>
          (if ftype f = FilterPendingTransaction then [TransactionHash h] else [])
      | BlockLogsEvent blockNumber blockLogs \<Rightarrow>
          (case filter_args f of
             None \<Rightarrow> []
           | Some flt \<Rightarrow>
               if ftype f = FilterLog then
                 (let (fromBlock, toBlock) = parseFilterRange flt
                  in if fromBlock \<le> blockNumber \<and> toBlock \<ge> blockNumber
                     then map LogEntry (filter_logs flt blockLogs) else [])
               else []))"

definition emit ::
  "('f \<Rightarrow> nat \<times> nat) \<Rightarrow> ('f \<Rightarrow> 'bl \<Rightarrow> 'l list) \<Rightarrow> 'bl chain_event \<Rightarrow> ('f, 'l) filter_state
     \<Rightarrow> ('f, 'l) filter_state" where
  "emit parseFilterRange filter_logs ev st =
     st\<lparr>filters := (\<lambda>filterId.
          case filters st filterId of
            None \<Rightarrow> None
          | Some f \<Rightarrow>
              Some (f\<lparr>updates := updates f @ listener parseFilterRange filter_logs f ev\<rparr>))\<rparr>"

definition eth_getFilterChanges ::
  "nat \<Rightarrow> ('f, 'l) filter_state \<Rightarrow> (js_error + 'l update list) \<times> ('f, 'l) filter_state" where
  "eth_getFilterChanges filterId st =
     (case filters st filterId of
        Some flt \<Rightarrow>
          (Inr (updates flt),
           st\<lparr>filters := (filters st)(filterId \<mapsto> flt\<lparr>updates := []\<rparr>)\<rparr>)
      | None \<Rightarrow> (Inl (plain_error ''filter not found''), st))"

definition eth_uninstallFilter ::
  "nat \<Rightarrow> ('f, 'l) filter_state \<Rightarrow> bool \<times> ('f, 'l) filter_state" where
  "eth_uninstallFilter filterId st =
     (case filters st filterId of
        None \<Rightarrow> (False, st)
      | Some flt \<Rightarrow> (True, st\<lparr>filters := (filters st)(filterId := None)\<rparr>))"

subsection \<open>Runs of events and polls\<close>

text \<open>
  A run interleaves emitted events with polls of any filter. \<open>run_ops\<close> gives the
  results of the polls in order, each with the id polled, and the final state.
\<close>

datatype 'bl filter_op = Emit "'bl chain_event" | Poll nat

fun run_ops ::
  "('f \<Rightarrow> nat \<times> nat) \<Rightarrow> ('f \<Rightarrow> 'bl \<Rightarrow> 'l list) \<Rightarrow> 'bl filter_op list \<Rightarrow> ('f, 'l) filter_state
     \<Rightarrow> (nat \<times> (js_error + 'l update list)) list \<times> ('f, 'l) filter_state" where
  "run_ops R M [] st = ([], st)"
| "run_ops R M (Emit ev # ops) st = run_ops R M ops (emit R M ev st)"
| "run_ops R M (Poll i # ops) st =
     (case eth_getFilterChanges i st of
        (r, st') \<Rightarrow> (case run_ops R M ops st' of (rs, st'') \<Rightarrow> ((i, r) # rs, st'')))"

text \<open>All that the polls of one filter returned, in order.\<close>

fun returned :: "nat \<Rightarrow> (nat \<times> (js_error + 'l update list)) list \<Rightarrow> 'l update list" where
  "returned filterId [] = []"
| "returned filterId ((i, r) # rs) =
     (case r of
        Inr us \<Rightarrow> (if i = filterId then us else []) @ returned filterId rs
      | Inl e \<Rightarrow> returned filterId rs)"

text \<open>All that the events of a run make the listener of a filter push, in order.\<close>

fun pushed ::
  "('f \<Rightarrow> nat \<times> nat) \<Rightarrow> ('f \<Rightarrow> 'bl \<Rightarrow> 'l list) \<Rightarrow> ('f, 'l) rpc_filter \<Rightarrow> 'bl filter_op list
     \<Rightarrow> 'l update list" where
  "pushed R M f [] = []"
| "pushed R M f (Emit ev # ops) = listener R M f ev @ pushed R M f ops"
| "pushed R M f (Poll i # ops) = pushed R M f ops"

text \<open>What is left in the buffer of a filter.\<close>

definition buffer :: "nat \<Rightarrow> ('f, 'l) filter_state \<Rightarrow> 'l update list" where
  "buffer filterId st = (case filters st filterId of None \<Rightarrow> [] | Some f \<Rightarrow> updates f)"

subsection \<open>A log filter for one address\<close>

text \<open>
  Logs are pairs of the emitting address and the data. The filter is registered for the
  address \<open>X\<close> on an API object without filters, and one block with a log of \<open>X\<close> and
  a log of \<open>Y\<close> has been mined since.
\<close>

definition example_range :: "string \<Rightarrow> nat \<times> nat" where
  "example_range flt = (0, 100)"

definition example_matching :: "string \<Rightarrow> (string \<times> string) list \<Rightarrow> (string \<times> string) list" where
  "example_matching flt blockLogs = [l \<leftarrow> blockLogs. fst l = flt]"

definition example_block_logs :: "(string \<times> string) list chain_event" where
  "example_block_logs = BlockLogsEvent 1 [(''X'', ''first''), (''Y'', ''second'')]"

definition example_filters :: "(string, string \<times> string) filter_state" where
  "example_filters =
     emit example_range example_matching example_block_logs
       (snd (eth_newFilter ''X'' \<lparr>last_id = 0, filters = Map.empty\<rparr>))"

section \<open>Looking up blocks, transactions and receipts\<close>

text \<open>
  The JSON form of a block: the header fields, kept whole, and the \<open>transactions\<close>
  array, of transaction objects or of hashes.
\<close>

record ('h, 't) block_json =
  json_header :: 'h
  json_transactions :: "'t list"

text \<open>
  A value a method returns where the source tells \<open>undefined\<close> from \<open>null\<close>.
\<close>

datatype 'a js_value = Undefined | Null | Value 'a

text \<open>Reading \<open>xs[i]\<close>: \<open>undefined\<close> past the end of the array.\<close>

definition array_get :: "'a list \<Rightarrow> nat \<Rightarrow> 'a option" where
  "array_get xs i = (if i < length xs then Some (xs ! i) else None)"

text \<open>
  \<open>blockchain.blocks.get\<close> and \<open>getByHash\<close> are not part of \<open>api.ts\<close>. The promise of a
  lookup is rejected (\<open>Inl\<close>), or resolves to \<open>null\<close> or to a block. \<open>block.toJSON\<close>
  is a parameter too.
\<close>

type_synonym ('ref, 'blk) block_lookup = "'ref \<Rightarrow> js_error + 'blk option"

definition eth_getBlockByNumber ::
  "('n, 'blk) block_lookup \<Rightarrow> ('blk \<Rightarrow> bool \<Rightarrow> ('h, 't) block_json) \<Rightarrow> 'n \<Rightarrow> bool
     \<Rightarrow> js_error + ('h, 't) block_json option" where
  "eth_getBlockByNumber blocks_get toJSON number transactions =
     (let block = (case blocks_get number of Inl e \<Rightarrow> None | Inr b \<Rightarrow> b)
      in case block of
           Some b \<Rightarrow> Inr (Some (toJSON b transactions))
         | None \<Rightarrow> Inr None)"

definition eth_getBlockByHash ::
  "(string, 'blk) block_lookup \<Rightarrow> ('blk \<Rightarrow> bool \<Rightarrow> ('h, 't) block_json) \<Rightarrow> string \<Rightarrow> bool
     \<Rightarrow> js_error + ('h, 't) block_json option" where
  "eth_getBlockByHash blocks_getByHash toJSON hash transactions =
     (let block = (case blocks_getByHash hash of Inl e \<Rightarrow> None | Inr b \<Rightarrow> b)
      in case block of
           Some b \<Rightarrow> Inr (Some (toJSON b transactions))
         | None \<Rightarrow> Inr None)"

text \<open>
  The index is a quantity; \<open>Quantity.from(index).toNumber()\<close> is its value.
\<close>

definition eth_getTransactionByBlockHashAndIndex ::
  "(string, 'blk) block_lookup \<Rightarrow> ('blk \<Rightarrow> bool \<Rightarrow> ('h, 't) block_json) \<Rightarrow> string \<Rightarrow> nat
     \<Rightarrow> js_error + 't js_value" where
  "eth_getTransactionByBlockHashAndIndex blocks_getByHash toJSON hash index =
     (case eth_getBlockByHash blocks_getByHash toJSON hash True of
        Inl e \<Rightarrow> Inl e
      | Inr None \<Rightarrow> Inr Null
      | Inr (Some block) \<Rightarrow>
          (case array_get (json_transactions block) index of
             Some tx \<Rightarrow> Inr (Value tx)
           | None \<Rightarrow> Inr Null))"

text \<open>
  Here the index is \<open>parseInt(Quantity.from(index).toString(), 10)\<close>: how a quantity
  prints is decided outside \<open>api.ts\<close>, so the conversion is a parameter, \<open>None\<close> for
  \<open>NaN\<close>. The block is read without a check: \<open>null.transactions\<close> is a \<open>TypeError\<close>.
\<close>

definition eth_getTransactionByBlockNumberAndIndex ::
  "('n, 'blk) block_lookup \<Rightarrow> ('blk \<Rightarrow> bool \<Rightarrow> ('h, 't) block_json) \<Rightarrow> (nat \<Rightarrow> nat option)
     \<Rightarrow> 'n \<Rightarrow> nat \<Rightarrow> js_error + 't js_value" where
  "eth_getTransactionByBlockNumberAndIndex blocks_get toJSON parseInt10 number index =
     (case eth_getBlockByNumber blocks_get toJSON number True of
        Inl e \<Rightarrow> Inl e
      | Inr None \<Rightarrow> Inl (TypeError ''Cannot read properties of null (reading transactions)'')
      | Inr (Some block) \<Rightarrow>
          (case parseInt10 index of
             None \<Rightarrow> Inr Undefined
           | Some i \<Rightarrow>
               (case array_get (json_transactions block) i of
                  Some tx \<Rightarrow> Inr (Value tx)
                | None \<Rightarrow> Inr Undefined)))"

subsection \<open>\<open>eth_getTransactionReceipt\<close>\<close>

text \<open>
  What the method reads of the blockchain: the database of mined transactions
  (\<open>transactions.get\<close>), the receipts, the pool (\<open>transactionPool.find\<close>) and
  \<open>isStarted()\<close>; and of the options.
\<close>

record ('t, 'r) chain_db =
  transactions_db :: "string \<rightharpoonup> 't"
  receipts_db :: "string \<rightharpoonup> 'r"
  pool_find :: "string \<rightharpoonup> 't"
  started :: bool

record miner_options =
  blockTime :: int
  legacyInstamine :: bool

definition receipt_notice :: "string \<Rightarrow> string" where
  "receipt_notice h =
     '' > Ganache `eth_getTransactionReceipt` notice: the transaction with hash'' @ newline @
     '' > `'' @ h @ ''` has not'' @ newline @
     '' > yet been mined. See https://trfl.co/v7-instamine for additional information.''"

text \<open>
  The result, and the lines written to the logger. \<open>Promise.all\<close> rejects when the
  lookup of the block does; \<open>receipt.toJSON\<close> on a missing receipt is a
  \<open>TypeError\<close>.
\<close>

definition eth_getTransactionReceipt ::
  "('n, 'blk) block_lookup \<Rightarrow> ('t \<Rightarrow> 'n) \<Rightarrow> ('r \<Rightarrow> 'blk option \<Rightarrow> 't \<Rightarrow> 'j) \<Rightarrow> miner_options
     \<Rightarrow> ('t, 'r) chain_db \<Rightarrow> string \<Rightarrow> (js_error + 'j option) \<times> string list" where
  "eth_getTransactionReceipt blocks_get blockNumber receipt_toJSON options db transactionHash =
     (let transaction = transactions_db db transactionHash;
          receipt = receipts_db db transactionHash;
          block = (case transaction of
                     Some t \<Rightarrow> blocks_get (blockNumber t)
                   | None \<Rightarrow> Inr None)
      in case block of
           Inl e \<Rightarrow> (Inl e, [])
         | Inr blk \<Rightarrow>
             (case transaction of
                Some t \<Rightarrow>
                  (case receipt of
                     None \<Rightarrow>
                       (Inl (TypeError ''Cannot read properties of null (reading toJSON)''), [])
                   | Some r \<Rightarrow> (Inr (Some (receipt_toJSON r blk t)), []))
              | None \<Rightarrow>
                  (Inr None,
                   if blockTime options \<le> 0 \<and> \<not> legacyInstamine options \<and> started db then
                     (case pool_find db transactionHash of
                        Some tx \<Rightarrow> [receipt_notice transactionHash]
                      | None \<Rightarrow> [])
                   else [])))"

subsection \<open>A chain of one block\<close>

text \<open>
  Block \<open>0\<close>, with hash \<open>0xb0\<close>, holds the transaction \<open>0xaa\<close>; the transaction \<open>0xdd\<close>
  waits in the pool. A block is its number and the hashes of its transactions.
\<close>

definition example_blocks_get :: "(nat, nat \<times> string list) block_lookup" where
  "example_blocks_get number =
     (if number = 0 then Inr (Some (0, [''0xaa''])) else Inl (plain_error ''header not found''))"

definition example_blocks_getByHash :: "(string, nat \<times> string list) block_lookup" where
  "example_blocks_getByHash hash =
     (if hash = ''0xb0'' then Inr (Some (0, [''0xaa''])) else Inr None)"

definition example_toJSON :: "nat \<times> string list \<Rightarrow> bool \<Rightarrow> (nat, string) block_json" where
  "example_toJSON b transactions = \<lparr>json_header = fst b, json_transactions = snd b\<rparr>"

definition example_db :: "(nat, string) chain_db" where
  "example_db =
     \<lparr>transactions_db = [''0xaa'' \<mapsto> 0], receipts_db = [''0xaa'' \<mapsto> ''ok''],
      pool_find = [''0xdd'' \<mapsto> 1], started = True\<rparr>"

section \<open>\<open>eth_sendTransaction\<close>\<close>

text \<open>
  The transaction object that \<open>TransactionFactory.fromRpc\<close> builds from the call
  object, as far as the method reads and writes it. A field that is \<open>null\<close> (for a
  quantity: \<open>isNull()\<close>) is \<open>None\<close>.
\<close>

record rpc_transaction =
  tx_from :: "string option"
  tx_to :: "string option"
  tx_gas :: "nat option"
  tx_gasPrice :: "nat option"
  tx_value :: nat
  tx_data :: string

text \<open>
  The wallet: the set \<open>knownAccounts\<close> and the map \<open>unlockedAccounts\<close> from an address
  to its secret key.
\<close>

record 'k wallet =
  knownAccounts :: "string set"
  unlockedAccounts :: "string \<rightharpoonup> 'k"

text \<open>
  The miner options read here; \<open>defaultTransactionGasLimit\<close> is \<open>None\<close> when it is
  \<open>RPCQUANTITY_EMPTY\<close>.
\<close>

record send_options =
  defaultTransactionGasLimit :: "nat option"
  gasPrice :: nat

text \<open>
  The step that fills in a missing gas limit. \<open>this.eth_estimateGas(transaction,
  Tag.LATEST)\<close> is a parameter that reads the blockchain and may throw.
\<close>

definition fill_gas ::
  "('c \<Rightarrow> 'bc \<Rightarrow> js_error + nat) \<Rightarrow> send_options \<Rightarrow> 'c \<Rightarrow> 'bc \<Rightarrow> rpc_transaction
     \<Rightarrow> js_error + rpc_transaction" where
  "fill_gas estimate options transaction bc tx =
     (case tx_gas tx of
        Some g \<Rightarrow> Inr tx
      | None \<Rightarrow>
          (case defaultTransactionGasLimit options of
             None \<Rightarrow>
               (case estimate transaction bc of
                  Inl e \<Rightarrow> Inl e
                | Inr g \<Rightarrow> Inr (tx\<lparr>tx_gas := Some g\<rparr>))
           | Some defaultLimit \<Rightarrow> Inr (tx\<lparr>tx_gas := Some defaultLimit\<rparr>)))"

definition fill_gasPrice :: "send_options \<Rightarrow> rpc_transaction \<Rightarrow> rpc_transaction" where
  "fill_gasPrice options tx =
     (case tx_gasPrice tx of
        Some p \<Rightarrow> tx
      | None \<Rightarrow> tx\<lparr>tx_gasPrice := Some (gasPrice options)\<rparr>)"

text \<open>
  \<open>TransactionFactory.fromRpc\<close> and \<open>blockchain.queueTransaction\<close> are not part of
  \<open>api.ts\<close> and are parameters. \<open>queueTransaction\<close> is the only call that passes the
  blockchain on changed: it rejects or resolves to the hash.
\<close>

definition eth_sendTransaction ::
  "('c \<Rightarrow> rpc_transaction) \<Rightarrow> ('c \<Rightarrow> 'bc \<Rightarrow> js_error + nat)
     \<Rightarrow> (rpc_transaction \<Rightarrow> 'k option \<Rightarrow> 'bc \<Rightarrow> (js_error + string) \<times> 'bc)
     \<Rightarrow> send_options \<Rightarrow> 'k wallet \<Rightarrow> 'c \<Rightarrow> 'bc \<Rightarrow> (js_error + string) \<times> 'bc" where
  "eth_sendTransaction fromRpc estimate queueTransaction options wallet transaction bc =
     (let tx = fromRpc transaction
      in case tx_from tx of
           None \<Rightarrow> (Inl (plain_error ''from not found; is required''), bc)
         | Some fromString \<Rightarrow>
             (let isKnownAccount = fromString \<in> knownAccounts wallet;
                  isUnlockedAccount = (unlockedAccounts wallet fromString \<noteq> None)
              in if \<not> isUnlockedAccount then
                   (Inl (plain_error
                      (if isKnownAccount then ''authentication needed: password or unlock''
                       else ''sender account not recognized'')), bc)
                 else
                   (case fill_gas estimate options transaction bc tx of
                      Inl e \<Rightarrow> (Inl e, bc)
                    | Inr tx1 \<Rightarrow>
                        (let tx2 = fill_gasPrice options tx1
                         in if isUnlockedAccount then
                              queueTransaction tx2 (unlockedAccounts wallet fromString) bc
                            else queueTransaction tx2 None bc))))"

subsection \<open>A pool to submit to\<close>

text \<open>
  Modelled from the spec: \<open>blockchain.queueTransaction\<close>, which is not part of
  \<open>api.ts\<close>. By the spec the pool validates a submission (signature, nonce, funds, gas
  limit) and a rejection surfaces to the caller at once, the transaction never entering
  the pool; an accepted transaction joins the pool, and the call returns its hash as
  soon as it is validated and queued, not after it is mined: no block is committed by
  the call. The validation reads account state that the chain model leaves out, so it
  is the parameter \<open>validate\<close>, which gives the reason of a rejection; \<open>sign\<close> gives
  the signed transaction, with its hash, that the pool holds.
\<close>

definition spec_queueTransaction ::
  "(rpc_transaction \<Rightarrow> chain_model \<Rightarrow> string option)
     \<Rightarrow> (rpc_transaction \<Rightarrow> 'k option \<Rightarrow> typed_transaction)
     \<Rightarrow> rpc_transaction \<Rightarrow> 'k option \<Rightarrow> chain_model \<Rightarrow> (js_error + string) \<times> chain_model" where
  "spec_queueTransaction validate sign tx secretKey bc =
     (case validate tx bc of
        Some reason \<Rightarrow> (Inl (plain_error reason), bc)
      | None \<Rightarrow>
          (Inr (tx_hash (sign tx secretKey)),
           bc\<lparr>pending_pool := pending_pool bc @ [sign tx secretKey]\<rparr>))"

text \<open>
  A pool that rejects a gas limit above 100000, and a signature that names the hash
  after the data of the transaction.
\<close>

definition example_validate :: "rpc_transaction \<Rightarrow> chain_model \<Rightarrow> string option" where
  "example_validate tx bc =
     (case tx_gas tx of
        None \<Rightarrow> Some ''gas-limit-exceeded''
      | Some g \<Rightarrow> if 100000 < g then Some ''gas-limit-exceeded'' else None)"

definition example_sign :: "rpc_transaction \<Rightarrow> string option \<Rightarrow> typed_transaction" where
  "example_sign tx secretKey = \<lparr>tx_hash = ''0x'' @ tx_data tx, execException = None\<rparr>"

definition example_wallet :: "string wallet" where
  "example_wallet =
     \<lparr>knownAccounts = {''alice'', ''bob''}, unlockedAccounts = [''alice'' \<mapsto> ''key-a'']\<rparr>"

text \<open>A call object is reduced to the sender it names, the empty string for none.\<close>

definition example_call :: "string \<Rightarrow> rpc_transaction" where
  "example_call sender =
     \<lparr>tx_from = (if sender = [] then None else Some sender), tx_to = Some ''bob'',
      tx_gas = None, tx_gasPrice = None, tx_value = 100, tx_data = ''ee''\<rparr>"

definition example_send_options :: send_options where
  "example_send_options = \<lparr>defaultTransactionGasLimit = Some 90000, gasPrice = 2\<rparr>"

definition example_estimate :: "string \<Rightarrow> chain_model \<Rightarrow> js_error + nat" where
  "example_estimate transaction bc = Inr 21000"

section \<open>\<open>evm_setStorageAt\<close>\<close>

text \<open>
  A trie is an object with a \<open>root\<close> that can be assigned; the nodes it reads and writes
  live in a database that every copy shares. Objects are told apart by their
  references.
\<close>

record trie =
  trie_root :: string

text \<open>
  The blockchain as this method uses it: the trie objects by reference, the reference
  that \<open>blockchain.trie\<close> holds, the next free reference, and the node database.
\<close>

record 'db storage_chain =
  tries :: "nat \<Rightarrow> trie"
  shared_trie :: nat
  next_ref :: nat
  nodes :: 'db

text \<open>\<open>copy()\<close> gives a new trie object, under a fresh reference, with the same root.\<close>

definition trie_copy :: "nat \<Rightarrow> 'db storage_chain \<Rightarrow> nat \<times> 'db storage_chain" where
  "trie_copy r bc =
     (next_ref bc,
      bc\<lparr>tries := (tries bc)(next_ref bc := \<lparr>trie_root = trie_root (tries bc r)\<rparr>),
         next_ref := next_ref bc + 1\<rparr>)"

text \<open>
  The method returns its result, the reference of the private copy, and the blockchain.
  \<open>blocks.getRaw\<close> is not part of \<open>api.ts\<close> and is a parameter.

  \<open>api.ts\<close> imports \<open>decode\<close> from the RLP package and declares no \<open>rlpDecode\<close>, so
  the call \<open>rlpDecode(block)\<close>, the first statement after the check of the block, throws
  a \<open>ReferenceError\<close>. The statements after it are not reached: the assignment of the
  block's state root to the copy, the read of the account through the copy, the padding
  of the position, the assignment of the account's storage root (a second
  \<open>rlpDecode\<close> call) to the root of \<open>blockchain.trie\<close>, and the \<open>put\<close> on
  \<open>blockchain.trie\<close>. The address, the position and the value are not read before the
  throw.
\<close>

definition evm_setStorageAt ::
  "('ref \<Rightarrow> 'raw option) \<Rightarrow> string \<Rightarrow> nat \<Rightarrow> string \<Rightarrow> 'ref \<Rightarrow> 'db storage_chain
     \<Rightarrow> (js_error + unit) \<times> nat \<times> 'db storage_chain" where
  "evm_setStorageAt getRaw address position storage blockNumber bc =
     (case trie_copy (shared_trie bc) bc of
        (trie, bc1) \<Rightarrow>
          (case getRaw blockNumber of
             None \<Rightarrow> (Inl (plain_error ''header not found''), trie, bc1)
           | Some block \<Rightarrow> (Inl (ReferenceError ''rlpDecode is not defined''), trie, bc1)))"

subsection \<open>A blockchain with one trie\<close>

text \<open>
  The trie of the blockchain is the object \<open>0\<close>, at the state root \<open>state-1\<close> of the
  latest block; a raw block is its state root.
\<close>

definition example_getRaw :: "string \<Rightarrow> string option" where
  "example_getRaw blockNumber = (if blockNumber = ''latest'' then Some ''state-1'' else None)"

definition example_storage_chain :: "unit storage_chain" where
  "example_storage_chain =
     \<lparr>tries = (\<lambda>r. \<lparr>trie_root = ''state-1''\<rparr>), shared_trie = 0, next_ref = 1, nodes = ()\<rparr>"

section \<open>Snapshots\<close>

text \<open>
  Modelled from the spec: what a snapshot records, the chain head, the trie root, the
  contents of the pool and the offset of the logical clock.
\<close>

record chain_tuple =
  head :: nat
  root :: string
  pool_contents :: "string list"
  clock_offset :: int

text \<open>
  Modelled from the spec: the snapshot manager, with the current tuple of the chain, the
  counter that numbers the snapshots, and the snapshots kept, by id.
\<close>

record snapshot_manager =
  current :: chain_tuple
  counter :: nat
  snapshots :: "nat \<rightharpoonup> chain_tuple"

text \<open>
  Modelled from the spec: \<open>blockchain.snapshot\<close>, which is not part of \<open>api.ts\<close>. The id
  is the next value of a monotonically increasing counter, and the current tuple is
  recorded under it.
\<close>

definition snapshot :: "snapshot_manager \<Rightarrow> nat \<times> snapshot_manager" where
  "snapshot s =
     (let snapshotId = counter s + 1
      in (snapshotId,
          s\<lparr>counter := snapshotId, snapshots := (snapshots s)(snapshotId \<mapsto> current s)\<rparr>))"

text \<open>
  Modelled from the spec: \<open>blockchain.revert\<close>, which is not part of \<open>api.ts\<close>. It
  returns false when the id is unknown; otherwise it restores the recorded tuple and
  discards every snapshot with an id greater than or equal to the reverted one.
\<close>

definition revert :: "nat \<Rightarrow> snapshot_manager \<Rightarrow> bool \<times> snapshot_manager" where
  "revert snapshotId s =
     (case snapshots s snapshotId of
        None \<Rightarrow> (False, s)
      | Some recorded \<Rightarrow>
          (True,
           s\<lparr>current := recorded,
              snapshots := (\<lambda>j. if snapshotId \<le> j then None else snapshots s j)\<rparr>))"

text \<open>
  The two methods of \<open>api.ts\<close>. \<open>Quantity.from\<close> wraps the id on the way out and on the
  way in; an id is modelled by its value.
\<close>

definition evm_snapshot :: "snapshot_manager \<Rightarrow> nat \<times> snapshot_manager" where
  "evm_snapshot bc = snapshot bc"

definition evm_revert :: "nat \<Rightarrow> snapshot_manager \<Rightarrow> bool \<times> snapshot_manager" where
  "evm_revert snapshotId bc = revert snapshotId bc"

text \<open>
  A run of calls: snapshots, reverts, and any other change of the chain (mining, a
  submission, a shift of the clock), which sets the current tuple. \<open>run_snapshots\<close>
  gives the ids the snapshots of the run returned, in order, and the final state.
\<close>

datatype snapshot_op = TakeSnapshot | RevertTo nat | Change chain_tuple

fun run_snapshots :: "snapshot_op list \<Rightarrow> snapshot_manager \<Rightarrow> nat list \<times> snapshot_manager" where
  "run_snapshots [] s = ([], s)"
| "run_snapshots (TakeSnapshot # ops) s =
     (case evm_snapshot s of
        (i, s') \<Rightarrow> (case run_snapshots ops s' of (ids, s'') \<Rightarrow> (i # ids, s'')))"
| "run_snapshots (RevertTo k # ops) s = run_snapshots ops (snd (evm_revert k s))"
| "run_snapshots (Change t # ops) s = run_snapshots ops (s\<lparr>current := t\<rparr>)"

definition genesis_tuple :: chain_tuple where
  "genesis_tuple = \<lparr>head = 0, root = ''root-0'', pool_contents = [], clock_offset = 0\<rparr>"

definition example_manager :: snapshot_manager where
  "example_manager = \<lparr>current = genesis_tuple, counter = 0, snapshots = Map.empty\<rparr>"

definition example_three_snapshots :: snapshot_manager where
  "example_three_snapshots =
     snd (run_snapshots [TakeSnapshot, TakeSnapshot, TakeSnapshot] example_manager)"

section \<open>Starting and stopping the miner\<close>

text \<open>Modelled from the spec: the states of the block producer.\<close>

datatype miner_state = Idle | Mining | Paused

text \<open>
  Modelled from the spec: the blockchain as the two miner methods use it, with the state
  of the miner, the batch of a mining operation that is in flight, if any, and the rest
  of the chain.
\<close>

record 'bc miner_chain =
  miner :: miner_state
  in_flight :: "typed_transaction list option"
  chain_state :: 'bc

text \<open>
  Modelled from the spec: \<open>blockchain.resume\<close>, which is not part of \<open>api.ts\<close>. By the
  spec, \<open>start\<close> takes an idle or paused miner to mining, and a second \<open>start\<close> while
  already mining is a no-op. \<open>api.ts\<close> shows that the call resolves to the transactions
  of a block or to nothing: what a start mines at once is the parameter \<open>on_start\<close>.
\<close>

definition resume ::
  "('bc \<Rightarrow> typed_transaction list option \<times> 'bc) \<Rightarrow> nat \<Rightarrow> 'bc miner_chain
     \<Rightarrow> typed_transaction list option \<times> 'bc miner_chain" where
  "resume on_start threads bc =
     (if miner bc = Mining then (None, bc)
      else (case on_start (chain_state bc) of
              (transactions, cs) \<Rightarrow> (transactions, bc\<lparr>miner := Mining, chain_state := cs\<rparr>)))"

text \<open>
  Modelled from the spec: \<open>blockchain.pause\<close>, which is not part of \<open>api.ts\<close>. By the
  spec, \<open>stop\<close> takes the miner to paused; it only prevents future automatic mining,
  and a mining operation in flight still completes.
\<close>

definition pause :: "'bc miner_chain \<Rightarrow> 'bc miner_chain" where
  "pause bc = bc\<lparr>miner := Paused\<rparr>"

text \<open>
  Modelled from the spec: the completion of the mining operation in flight, which
  commits its batch whatever the state of the miner; \<open>commit\<close> is a parameter.
\<close>

definition finish_mining ::
  "(typed_transaction list \<Rightarrow> 'bc \<Rightarrow> 'bc) \<Rightarrow> 'bc miner_chain \<Rightarrow> 'bc miner_chain" where
  "finish_mining commit bc =
     (case in_flight bc of
        None \<Rightarrow> bc
      | Some batch \<Rightarrow> bc\<lparr>in_flight := None, chain_state := commit batch (chain_state bc)\<rparr>)"

text \<open>
  The two methods of \<open>api.ts\<close>; \<open>legacy\<close> is the test
  \<open>options.miner.legacyInstamine === true\<close>.
\<close>

definition miner_start ::
  "string \<Rightarrow> string \<Rightarrow> ('bc \<Rightarrow> typed_transaction list option \<times> 'bc) \<Rightarrow> bool \<Rightarrow> bool \<Rightarrow> nat
     \<Rightarrow> 'bc miner_chain \<Rightarrow> (js_error + bool) \<times> 'bc miner_chain" where
  "miner_start VM_EXCEPTION VM_EXCEPTIONS on_start legacy vmErrorsOnRPCResponse
       threads bc =
     (if legacy then
        (case resume on_start threads bc of
           (transactions, bc') \<Rightarrow>
             (case transactions of
                None \<Rightarrow> (Inr True, bc')
              | Some txs \<Rightarrow>
                  if vmErrorsOnRPCResponse then
                    (case assertExceptionalTransactions VM_EXCEPTION VM_EXCEPTIONS txs of
                       Inl e \<Rightarrow> (Inl e, bc')
                     | Inr u \<Rightarrow> (Inr True, bc'))
                  else (Inr True, bc')))
      else (Inr True, snd (resume on_start threads bc)))"

definition miner_stop :: "'bc miner_chain \<Rightarrow> bool \<times> 'bc miner_chain" where
  "miner_stop bc = (True, pause bc)"

definition example_miner_chain :: "chain_model miner_chain" where
  "example_miner_chain =
     \<lparr>miner = Mining, in_flight = Some [example_tx_ok], chain_state = example_chain\<rparr>"

definition example_on_start :: "chain_model \<Rightarrow> typed_transaction list option \<times> chain_model" where
  "example_on_start cs = (case spec_mine (- 1) None True cs of (r, cs') \<Rightarrow> (Some (pending_pool cs), cs'))"

definition example_commit :: "typed_transaction list \<Rightarrow> chain_model \<Rightarrow> chain_model" where
  "example_commit batch cs = cs\<lparr>committed_blocks := committed_blocks cs @ [batch]\<rparr>"

section \<open>\<open>eth_call\<close> and \<open>eth_estimateGas\<close>\<close>

text \<open>
  A block reference is a tag or a number. Of the header of the block it resolves to,
  the methods read the fields below and the simulator the state root.
\<close>

datatype block_ref = Earliest | Latest | Pending | BlockNumber nat

record header =
  h_number :: nat
  h_parentHash :: string
  h_miner :: string
  h_gasUsed :: nat
  h_timestamp :: nat
  h_totalDifficulty :: nat
  h_stateRoot :: string

text \<open>The arguments of \<open>new RuntimeBlock(...)\<close>.\<close>

record runtime_block =
  rb_number :: nat
  rb_parentHash :: string
  rb_coinbase :: string
  rb_gasLimit :: nat
  rb_gasUsed :: nat
  rb_timestamp :: nat
  rb_difficulty :: nat
  rb_totalDifficulty :: nat

text \<open>
  The call object of the two methods; a property that is \<open>undefined\<close> or \<open>null\<close> is
  \<open>None\<close>.
\<close>

record call_object =
  co_from :: "string option"
  co_to :: "string option"
  co_gas :: "nat option"
  co_gasLimit :: "nat option"
  co_gasPrice :: "nat option"
  co_value :: "nat option"
  co_data :: "string option"
  co_input :: "string option"

text \<open>What is handed to the simulator: the transaction and the block to run it in.\<close>

record simulated_transaction =
  st_gas :: nat
  st_from :: string
  st_to :: "string option"
  st_gasPrice :: nat
  st_value :: "nat option"
  st_data :: "string option"
  st_block :: runtime_block

record call_options =
  callGasLimit :: nat
  difficulty :: nat

subsection \<open>The state trie store and its views\<close>

text \<open>
  Keys are account addresses or pairs of an address and a storage slot; values are
  account records (nonce and balance) or storage words.
\<close>

datatype trie_key = AccountKey string | StorageKey string nat

datatype trie_value = AccountRecord nat nat | StorageWord nat

type_synonym trie_contents = "trie_key \<rightharpoonup> trie_value"

text \<open>
  Modelled from the spec: the engine behind \<open>api.ts\<close>. It holds the committed roots
  the store retains, each with the contents it identifies; the lookup of blocks, whose
  promise is rejected or resolves to \<open>null\<close> or to a header; the mutable views, by
  handle; the handle of the canonical view, the one behind \<open>blockchain.vm\<close>; the next
  free handle; and the coinbase.
\<close>

record engine =
  committed_roots :: "string \<rightharpoonup> trie_contents"
  engine_blocks :: "block_ref \<Rightarrow> js_error + header option"
  views :: "nat \<rightharpoonup> trie_contents"
  canonical :: nat
  next_view :: nat
  coinbase :: string

text \<open>
  Modelled from the spec: the allocation behind \<open>copy\<close>, an independent mutable view
  of given contents under a fresh handle.
\<close>

definition new_view :: "trie_contents \<Rightarrow> engine \<Rightarrow> nat \<times> engine" where
  "new_view contents e =
     (next_view e, e\<lparr>views := (views e)(next_view e \<mapsto> contents), next_view := next_view e + 1\<rparr>)"

text \<open>
  Modelled from the spec: \<open>copy(root)\<close> of the state trie store, which is not part of
  \<open>api.ts\<close>. A root that the store does not retain fails with
  \<open>StateNotFoundError\<close>.
\<close>

definition copy_root :: "string \<Rightarrow> engine \<Rightarrow> js_error + nat \<times> engine" where
  "copy_root r e =
     (case committed_roots e r of
        None \<Rightarrow> Inl (plain_error ''StateNotFoundError'')
      | Some contents \<Rightarrow> Inr (new_view contents e))"

text \<open>
  Modelled from the spec: \<open>blockchain.vm.copy()\<close>, which is not part of \<open>api.ts\<close>: a
  copy of the canonical view.
\<close>

definition vm_copy :: "engine \<Rightarrow> js_error + nat \<times> engine" where
  "vm_copy e =
     (case views e (canonical e) of
        None \<Rightarrow> Inl (plain_error ''StateNotFoundError'')
      | Some contents \<Rightarrow> Inr (new_view contents e))"

text \<open>
  Modelled from the spec: a view obtained by \<open>copy\<close> is discarded after the call.
\<close>

definition discard :: "nat \<Rightarrow> engine \<Rightarrow> engine" where
  "discard v e = e\<lparr>views := (views e)(v := None)\<rparr>"

text \<open>
  Modelled from the spec: the outcome of an execution. The interpreter is a black box:
  from a transaction and the contents of a view it gives the outcome and the contents
  after the state delta.
\<close>

datatype outcome = Returned string | Reverted string | OutOfGas

type_synonym executor = "simulated_transaction \<Rightarrow> trie_contents \<Rightarrow> outcome \<times> trie_contents"

text \<open>
  Modelled from the spec: running a transaction in a view writes the state delta to
  that view.
\<close>

definition run_in_view :: "executor \<Rightarrow> simulated_transaction \<Rightarrow> nat \<Rightarrow> engine \<Rightarrow> outcome \<times> engine" where
  "run_in_view execute tx v e =
     (case views e v of
        None \<Rightarrow> (Reverted ''no such view'', e)
      | Some contents \<Rightarrow>
          (case execute tx contents of
             (result, contents') \<Rightarrow> (result, e\<lparr>views := (views e)(v \<mapsto> contents')\<rparr>)))"

text \<open>
  Modelled from the spec: \<open>blockchain.simulateTransaction\<close>, which is not part of
  \<open>api.ts\<close>. By the spec, \<open>call\<close> operates on a private copy of the trie, taken at the
  state root of the parent block, and discards it after use; a revert fails the call.
\<close>

definition simulateTransaction ::
  "executor \<Rightarrow> simulated_transaction \<Rightarrow> header \<Rightarrow> engine \<Rightarrow> (js_error + string) \<times> engine" where
  "simulateTransaction execute tx parentBlock e =
     (case copy_root (h_stateRoot parentBlock) e of
        Inl err \<Rightarrow> (Inl err, e)
      | Inr (v, e1) \<Rightarrow>
          (case run_in_view execute tx v e1 of
             (result, e2) \<Rightarrow>
               ((case result of
                   Returned returnData \<Rightarrow> Inr returnData
                 | Reverted reason \<Rightarrow> Inl (plain_error reason)
                 | OutOfGas \<Rightarrow> Inl (plain_error ''out of gas'')),
                discard v e2)))"

text \<open>
  Modelled from the spec: one run of the gas estimator at a candidate gas limit, in a
  machine that \<open>generateVM\<close> gives and that is dropped after the run.
\<close>

definition run_candidate ::
  "(engine \<Rightarrow> js_error + nat \<times> engine) \<Rightarrow> executor \<Rightarrow> simulated_transaction \<Rightarrow> nat \<Rightarrow> engine
     \<Rightarrow> outcome \<times> engine" where
  "run_candidate generateVM execute tx gas e =
     (case generateVM e of
        Inl err \<Rightarrow> (Reverted (err_message err), e)
      | Inr (v, e1) \<Rightarrow>
          (case run_in_view execute (tx\<lparr>st_gas := gas\<rparr>) v e1 of
             (result, e2) \<Rightarrow> (result, discard v e2)))"

text \<open>
  Modelled from the spec: the binary search of the gas estimator for the least gas
  limit that does not run out of gas, between a limit that is too low and one that is
  enough.
\<close>

function gas_search ::
  "(engine \<Rightarrow> js_error + nat \<times> engine) \<Rightarrow> executor \<Rightarrow> simulated_transaction \<Rightarrow> nat \<Rightarrow> nat
     \<Rightarrow> engine \<Rightarrow> nat \<times> engine" where
  "gas_search generateVM execute tx lo hi e =
     (if hi \<le> lo + 1 then (hi, e)
      else
        (let mid = (lo + hi) div 2
         in case run_candidate generateVM execute tx mid e of
              (result, e') \<Rightarrow>
                if result = OutOfGas then gas_search generateVM execute tx mid hi e'
                else gas_search generateVM execute tx lo mid e'))"
  by pat_completeness auto
termination
  by (relation "measure (\<lambda>(g, x, tx, lo, hi, e). hi - lo)") auto

declare gas_search.simps [simp del]

text \<open>
  Modelled from the spec: the helper \<open>estimateGas\<close> of \<open>helpers/gas-estimator\<close>, which
  is not part of \<open>api.ts\<close>. By the spec it searches over candidate gas limits, bounded
  by the gas of the transaction, runs the transaction again at each candidate, and
  still surfaces a revert.
\<close>

definition estimateGas ::
  "(engine \<Rightarrow> js_error + nat \<times> engine) \<Rightarrow> executor \<Rightarrow> simulated_transaction \<Rightarrow> engine
     \<Rightarrow> (js_error + nat) \<times> engine" where
  "estimateGas generateVM execute tx e =
     (case run_candidate generateVM execute tx (st_gas tx) e of
        (result, e1) \<Rightarrow>
          (case result of
             Reverted reason \<Rightarrow> (Inl (plain_error reason), e1)
           | OutOfGas \<Rightarrow> (Inl (plain_error ''out of gas''), e1)
           | Returned returnData \<Rightarrow>
               (case gas_search generateVM execute tx 0 (st_gas tx) e1 of
                  (gasEstimate, e2) \<Rightarrow> (Inr gasEstimate, e2))))"

subsection \<open>The two methods\<close>

text \<open>
  \<open>blocks.get\<close> followed by \<open>parentBlock.header\<close>: a rejected promise throws, and so
  does the read of \<open>header\<close> on \<open>null\<close>.
\<close>

definition parent_header :: "engine \<Rightarrow> block_ref \<Rightarrow> js_error + header" where
  "parent_header e blockNumber =
     (case engine_blocks e blockNumber of
        Inl err \<Rightarrow> Inl err
      | Inr None \<Rightarrow> Inl (TypeError ''Cannot read properties of null (reading header)'')
      | Inr (Some h) \<Rightarrow> Inr h)"

definition eth_call ::
  "executor \<Rightarrow> call_options \<Rightarrow> call_object \<Rightarrow> block_ref \<Rightarrow> engine \<Rightarrow> (js_error + string) \<times> engine" where
  "eth_call execute options transaction blockNumber e =
     (case parent_header e blockNumber of
        Inl err \<Rightarrow> (Inl err, e)
      | Inr parentHeader \<Rightarrow>
          (let gas = (case co_gasLimit transaction of
                        None \<Rightarrow> (case co_gas transaction of
                                   Some g \<Rightarrow> g
                                 | None \<Rightarrow> callGasLimit options)
                      | Some g \<Rightarrow> g);
               data = (case co_data transaction of
                         None \<Rightarrow> co_input transaction
                       | Some d \<Rightarrow> Some d);
               block = \<lparr>rb_number = h_number parentHeader,
                        rb_parentHash = h_parentHash parentHeader,
                        rb_coinbase = coinbase e,
                        rb_gasLimit = gas,
                        rb_gasUsed = h_gasUsed parentHeader,
                        rb_timestamp = h_timestamp parentHeader,
                        rb_difficulty = difficulty options,
                        rb_totalDifficulty = h_totalDifficulty parentHeader\<rparr>;
               simulatedTransaction =
                 \<lparr>st_gas = gas,
                  st_from = (case co_from transaction of None \<Rightarrow> coinbase e | Some a \<Rightarrow> a),
                  st_to = co_to transaction,
                  st_gasPrice = (case co_gasPrice transaction of None \<Rightarrow> 0 | Some p \<Rightarrow> p),
                  st_value = co_value transaction,
                  st_data = data,
                  st_block = block\<rparr>
           in simulateTransaction execute simulatedTransaction parentHeader e))"

text \<open>
  In \<open>eth_estimateGas\<close> the transaction comes from \<open>TransactionFactory.fromRpc\<close>, which
  keeps the fields of the call object; \<open>generateVM\<close> is \<open>() => blockchain.vm.copy()\<close>.
  The flags \<open>skipBalance\<close> and \<open>skipNonce\<close> of the run arguments are always true and
  are left to the interpreter.
\<close>

definition eth_estimateGas ::
  "executor \<Rightarrow> call_options \<Rightarrow> call_object \<Rightarrow> block_ref \<Rightarrow> engine \<Rightarrow> (js_error + nat) \<times> engine" where
  "eth_estimateGas execute options transaction blockNumber e =
     (case parent_header e blockNumber of
        Inl err \<Rightarrow> (Inl err, e)
      | Inr parentHeader \<Rightarrow>
          (let generateVM = vm_copy;
               sender = (case co_from transaction of None \<Rightarrow> coinbase e | Some a \<Rightarrow> a);
               gas = (case co_gas transaction of None \<Rightarrow> callGasLimit options | Some g \<Rightarrow> g);
               block = \<lparr>rb_number = h_number parentHeader + 1,
                        rb_parentHash = h_parentHash parentHeader,
                        rb_coinbase = h_miner parentHeader,
                        rb_gasLimit = gas,
                        rb_gasUsed = h_gasUsed parentHeader,
                        rb_timestamp = h_timestamp parentHeader,
                        rb_difficulty = difficulty options,
                        rb_totalDifficulty = h_totalDifficulty parentHeader\<rparr>;
               runArgs =
                 \<lparr>st_gas = gas,
                  st_from = sender,
                  st_to = co_to transaction,
                  st_gasPrice = (case co_gasPrice transaction of None \<Rightarrow> 0 | Some p \<Rightarrow> p),
                  st_value = co_value transaction,
                  st_data = co_data transaction,
                  st_block = block\<rparr>
           in estimateGas generateVM execute runArgs e))"

subsection \<open>Reading the state\<close>

text \<open>
  Modelled from the spec: a read against a block reference is a \<open>get\<close> of the store
  at the state root of the block; it fails when the block or the root is not there.
\<close>

definition read_at :: "engine \<Rightarrow> block_ref \<Rightarrow> trie_key \<Rightarrow> js_error + trie_value option" where
  "read_at e blockNumber k =
     (case engine_blocks e blockNumber of
        Inl err \<Rightarrow> Inl err
      | Inr None \<Rightarrow> Inl (plain_error ''StateNotFoundError'')
      | Inr (Some h) \<Rightarrow>
          (case committed_roots e (h_stateRoot h) of
             None \<Rightarrow> Inl (plain_error ''StateNotFoundError'')
           | Some contents \<Rightarrow> Inr (contents k)))"

text \<open>Modelled from the spec: \<open>getAccount(address, block-ref)\<close>.\<close>

definition getAccount :: "engine \<Rightarrow> string \<Rightarrow> block_ref \<Rightarrow> js_error + trie_value option" where
  "getAccount e address blockNumber = read_at e blockNumber (AccountKey address)"

text \<open>Modelled from the spec: \<open>getStorageAt(address, slot, block-ref)\<close>.\<close>

definition getStorageAt :: "engine \<Rightarrow> string \<Rightarrow> nat \<Rightarrow> block_ref \<Rightarrow> js_error + trie_value option" where
  "getStorageAt e address slot blockNumber = read_at e blockNumber (StorageKey address slot)"

subsection \<open>What a speculative run leaves alone\<close>

text \<open>
  \<open>untouched e e'\<close>: from \<open>e\<close> to \<open>e'\<close> the committed roots, the blocks, the coinbase
  and the canonical view with its contents are the same, and no handle was given back.
\<close>

definition untouched :: "engine \<Rightarrow> engine \<Rightarrow> bool" where
  "untouched e e' =
     (committed_roots e' = committed_roots e \<and> engine_blocks e' = engine_blocks e \<and>
      coinbase e' = coinbase e \<and> canonical e' = canonical e \<and>
      views e' (canonical e) = views e (canonical e) \<and> next_view e \<le> next_view e')"

subsection \<open>An engine with one account\<close>

text \<open>
  The account \<open>0xa1\<close> has nonce 0 and balance 100 at the root \<open>root-0\<close> of the latest
  block, and in the canonical view. The interpreter empties the account and sets a
  storage slot; it runs out of gas below 3 units.
\<close>

definition example_contents :: trie_contents where
  "example_contents = [AccountKey ''0xa1'' \<mapsto> AccountRecord 0 100]"

definition example_header :: header where
  "example_header =
     \<lparr>h_number = 0, h_parentHash = ''0x00'', h_miner = ''0xc0'', h_gasUsed = 0,
      h_timestamp = 1, h_totalDifficulty = 0, h_stateRoot = ''root-0''\<rparr>"

definition example_engine :: engine where
  "example_engine =
     \<lparr>committed_roots = [''root-0'' \<mapsto> example_contents],
      engine_blocks = (\<lambda>r. if r = Latest then Inr (Some example_header) else Inr None),
      views = [0 \<mapsto> example_contents],
      canonical = 0,
      next_view = 1,
      coinbase = ''0xc0''\<rparr>"

definition example_execute :: executor where
  "example_execute tx contents =
     (if st_gas tx < 3 then (OutOfGas, contents)
      else (Returned ''0x01'',
            contents(AccountKey ''0xa1'' \<mapsto> AccountRecord 1 0,
                     StorageKey ''0xa1'' 0 \<mapsto> StorageWord 7)))"

definition example_call_options :: call_options where
  "example_call_options = \<lparr>callGasLimit = 8, difficulty = 1\<rparr>"

definition example_call_object :: call_object where
  "example_call_object =
     \<lparr>co_from = Some ''0xa1'', co_to = Some ''0xb2'', co_gas = None, co_gasLimit = None,
      co_gasPrice = None, co_value = Some 100, co_data = None, co_input = None\<rparr>"

section \<open>The aggregated error of a mined batch\<close>

lemma forEach_truthy:
  assumes "VES \<noteq> []" "js_truthy (baseError v)" "errors v = Some errs"
  shows "forEach (aet_callback VE VES) txs v =
     Inr (v\<lparr>baseError := (if exceptional txs = [] then baseError v else Some VES),
            errors := Some (errs @ map later_line (exceptional txs)),
            data := store_data (data v) (exceptional txs)\<rparr>)"
  using assms
proof (induction txs arbitrary: v errs)
  case Nil
  then show ?case by simp
next
  case (Cons t ts)
  show ?case
  proof (cases "execException t")
    case None
    then show ?thesis using Cons by (simp add: aet_callback_def)
  next
    case (Some e)
    let ?v1 = "v\<lparr>baseError := Some VES, errors := Some (errs @ [later_line (t, e)]),
                  data := (data v)(data_hash (exc_data e) \<mapsto> exc_data e)\<rparr>"
    have step: "aet_callback VE VES v t = Inr ?v1"
      using Some Cons.prems by (simp add: aet_callback_def later_line_def)
    have tr: "js_truthy (baseError ?v1)" using Cons.prems(1) by (simp add: js_truthy_def)
    have er: "errors ?v1 = Some (errs @ [later_line (t, e)])" by simp
    have "forEach (aet_callback VE VES) (t # ts) v = forEach (aet_callback VE VES) ts ?v1"
      using step by simp
    also note Cons.IH[OF Cons.prems(1) tr er]
    also have "Inr (?v1\<lparr>baseError := (if exceptional ts = [] then baseError ?v1 else Some VES),
            errors := Some ((errs @ [later_line (t, e)]) @ map later_line (exceptional ts)),
            data := store_data (data ?v1) (exceptional ts)\<rparr>)
       = (Inr (v\<lparr>baseError := (if exceptional (t # ts) = [] then baseError v else Some VES),
            errors := Some (errs @ map later_line (exceptional (t # ts))),
            data := store_data (data v) (exceptional (t # ts))\<rparr>) :: js_error + aet_vars)"
      by (simp add: Some)
    finally show ?thesis .
  qed
qed

lemma forEach_init:
  assumes "VE \<noteq> []" "VES \<noteq> []"
  shows "forEach (aet_callback VE VES) txs aet_init =
     Inr (case exceptional txs of
            [] \<Rightarrow> aet_init
          | p # ps \<Rightarrow> \<lparr>baseError = Some (if ps = [] then VE else VES),
                errors = Some (exc_message (snd p) # map later_line ps),
                data = store_data Map.empty (p # ps)\<rparr>)"
proof (induction txs)
  case Nil
  then show ?case by simp
next
  case (Cons t ts)
  show ?case
  proof (cases "execException t")
    case None
    then show ?thesis using Cons by (simp add: aet_callback_def aet_init_def js_truthy_def)
  next
    case (Some e)
    let ?v1 = "\<lparr>baseError = Some VE, errors = Some [exc_message e],
                  data = Map.empty(data_hash (exc_data e) \<mapsto> exc_data e)\<rparr>"
    have step: "aet_callback VE VES aet_init t = Inr ?v1"
      using Some by (simp add: aet_callback_def aet_init_def js_truthy_def)
    have tr: "js_truthy (baseError ?v1)" using assms(1) by (simp add: js_truthy_def)
    have er: "errors ?v1 = Some [exc_message e]" by simp
    have "forEach (aet_callback VE VES) (t # ts) aet_init = forEach (aet_callback VE VES) ts ?v1"
      using step by simp
    also note forEach_truthy[OF assms(2) tr er, of VE ts]
    also have "Inr (?v1\<lparr>baseError := (if exceptional ts = [] then baseError ?v1 else Some VES),
            errors := Some ([exc_message e] @ map later_line (exceptional ts)),
            data := store_data (data ?v1) (exceptional ts)\<rparr>)
       = (Inr (case exceptional (t # ts) of
            [] \<Rightarrow> aet_init
          | p # ps \<Rightarrow> \<lparr>baseError = Some (if ps = [] then VE else VES),
                errors = Some (exc_message (snd p) # map later_line ps),
                data = store_data Map.empty (p # ps)\<rparr>) :: js_error + aet_vars)"
      by (simp add: Some)
    finally show ?thesis .
  qed
qed

lemma assert_closed_form:
  assumes "VE \<noteq> []" "VES \<noteq> []"
  shows "assertExceptionalTransactions VE VES txs =
     (case exceptional txs of
        [] \<Rightarrow> Inr ()
      | p # ps \<Rightarrow> Inl (Error ((if ps = [] then VE else VES) @ join newline (exc_message (snd p) # map later_line ps))
                      (store_data Map.empty (p # ps))))"
  unfolding assertExceptionalTransactions_def forEach_init[OF assms]
  using assms by (simp add: aet_init_def split: list.splits)


lemma sublist_join: "m \<in> set xs \<Longrightarrow> sublist m (join sep xs)"
proof (induction sep xs rule: join.induct)
  case (1 sep)
  then show ?case by simp
next
  case (2 sep x)
  then show ?case by simp
next
  case (3 sep x y ys)
  show ?case
  proof (cases "m = x")
    case True
    then show ?thesis by simp
  next
    case False
    then have "sublist m (join sep (y # ys))" using 3 by simp
    then obtain ps ss where "join sep (y # ys) = ps @ m @ ss" by (auto simp: sublist_def)
    then have "join sep (x # y # ys) = (x @ sep @ ps) @ m @ ss" by simp
    then show ?thesis unfolding sublist_def by blast
  qed
qed

lemma message_in_toString: "sublist (exc_message e) (error_toString e)"
proof -
  have "sublist (exc_message e) ((exc_name e @ '': '') @ exc_message e)"
    by (rule sublist_append_leftI)
  then show ?thesis by (simp add: error_toString_def)
qed

lemma message_in_later_line: "sublist (exc_message (snd p)) (later_line p)"
proof -
  obtain ps ss where "error_toString (snd p) = ps @ exc_message (snd p) @ ss"
    using message_in_toString[of "snd p"] by (auto simp: sublist_def)
  then have "later_line p = (tx_hash (fst p) @ '': '' @ ps) @ exc_message (snd p) @ (ss @ newline)"
    by (simp add: later_line_def)
  then show ?thesis unfolding sublist_def by blast
qed

lemma exceptional_set:
  "(t, e) \<in> set (exceptional txs) \<longleftrightarrow> t \<in> set txs \<and> execException t = Some e"
  by (induction txs) (auto split: option.splits)

lemma exceptional_distinct:
  "distinct (map tx_hash txs) \<Longrightarrow> distinct (map (\<lambda>p. tx_hash (fst p)) (exceptional txs))"
proof (induction txs)
  case Nil
  then show ?case by simp
next
  case (Cons t ts)
  have "tx_hash t \<notin> (\<lambda>p. tx_hash (fst p)) ` set (exceptional ts)"
  proof
    assume "tx_hash t \<in> (\<lambda>p. tx_hash (fst p)) ` set (exceptional ts)"
    then obtain t' e' where "(t', e') \<in> set (exceptional ts)" "tx_hash t' = tx_hash t" by force
    then have "t' \<in> set ts" "tx_hash t' = tx_hash t" by (simp_all add: exceptional_set)
    moreover have "tx_hash t \<notin> tx_hash ` set ts" using Cons.prems by simp
    ultimately show False by (metis imageI)
  qed
  then show ?case using Cons by (simp split: option.splits)
qed

lemma store_data_other:
  "k \<notin> (\<lambda>p. data_hash (exc_data (snd p))) ` set ps \<Longrightarrow> store_data d ps k = d k"
  by (induction ps arbitrary: d) auto

lemma store_data_lookup:
  "distinct (map (\<lambda>p. data_hash (exc_data (snd p))) ps) \<Longrightarrow> (t, e) \<in> set ps \<Longrightarrow>
   store_data d ps (data_hash (exc_data e)) = Some (exc_data e)"
proof (induction ps arbitrary: d)
  case Nil
  then show ?case by simp
next
  case (Cons p ps)
  show ?case
  proof (cases "p = (t, e)")
    case True
    then have "data_hash (exc_data e) \<notin> (\<lambda>p. data_hash (exc_data (snd p))) ` set ps"
      using Cons.prems(1) by auto
    then show ?thesis using True by (simp add: store_data_other)
  next
    case False
    then show ?thesis using Cons by auto
  qed
qed

lemma aggregated_error:
  assumes ve: "VE \<noteq> []" "VES \<noteq> []"
    and some: "t0 \<in> set txs" "execException t0 = Some e0"
    and wf: "\<forall>t\<in>set txs. \<forall>e. execException t = Some e \<longrightarrow> data_hash (exc_data e) = tx_hash t"
    and dist: "distinct (map tx_hash txs)"
  shows "\<exists>m d. assertExceptionalTransactions VE VES txs = Inl (Error m d) \<and>
          (\<forall>t\<in>set txs. \<forall>e. execException t = Some e \<longrightarrow>
              sublist (exc_message e) m \<and> d (tx_hash t) = Some (exc_data e))"
proof -
  have "(t0, e0) \<in> set (exceptional txs)" using some by (simp add: exceptional_set)
  then obtain p ps where ex: "exceptional txs = p # ps" by (cases "exceptional txs") auto
  let ?b = "if ps = [] then VE else VES"
  let ?errs = "exc_message (snd p) # map later_line ps"
  let ?m = "?b @ join newline ?errs"
  let ?d = "store_data Map.empty (p # ps)"
  have res: "assertExceptionalTransactions VE VES txs = Inl (Error ?m ?d)"
    using assert_closed_form[OF ve, of txs] ex by simp
  have keys: "map (\<lambda>p. data_hash (exc_data (snd p))) (exceptional txs)
        = map (\<lambda>p. tx_hash (fst p)) (exceptional txs)"
    using wf by (auto simp: exceptional_set)
  have "distinct (map (\<lambda>p. data_hash (exc_data (snd p))) (exceptional txs))"
    unfolding keys by (rule exceptional_distinct[OF dist])
  then have dk: "distinct (map (\<lambda>p. data_hash (exc_data (snd p))) (p # ps))"
    unfolding ex .
  have each: "sublist (exc_message e) ?m \<and> ?d (tx_hash t) = Some (exc_data e)"
    if "t \<in> set txs" "execException t = Some e" for t e
  proof
    have "(t, e) \<in> set (exceptional txs)" using that by (simp add: exceptional_set)
    then have mem: "(t, e) \<in> set (p # ps)" unfolding ex .
    have "\<exists>l\<in>set ?errs. sublist (exc_message e) l"
    proof (cases "(t, e) = p")
      case True
      then show ?thesis by auto
    next
      case False
      then have "(t, e) \<in> set ps" using mem by auto
      then have "later_line (t, e) \<in> set ?errs" by simp
      moreover have "sublist (exc_message e) (later_line (t, e))"
        using message_in_later_line[of "(t, e)"] by simp
      ultimately show ?thesis by blast
    qed
    then obtain l where "l \<in> set ?errs" "sublist (exc_message e) l" by blast
    then have "sublist (exc_message e) (join newline ?errs)"
      using sublist_join[of l ?errs newline] sublist_order.order_trans by blast
    then obtain ps' ss' where "join newline ?errs = ps' @ exc_message e @ ss'"
      by (auto simp: sublist_def)
    then have "?m = (?b @ ps') @ exc_message e @ ss'" by simp
    then show "sublist (exc_message e) ?m" unfolding sublist_def by blast
    have "data_hash (exc_data e) = tx_hash t" using wf that by blast
    then show "?d (tx_hash t) = Some (exc_data e)"
      using store_data_lookup[OF dk mem, of Map.empty] by simp
  qed
  show ?thesis using res each by blast
qed

text \<open>
  C3. With strict failure reporting (\<open>vmErrorsOnRPCResponse\<close>) on, when the batch that
  \<open>blockchain.mine\<close> returns holds at least one transaction with an execution exception,
  \<open>evm_mine\<close> throws one error, in the single-block call as in any pass of the
  \<open>blocks\<close> loop. For every such transaction the message of the exception is part of
  the error's message, and the error's \<open>data\<close> object maps the hash of the
  transaction to the data of its exception, so that none is lost. The two message
  constants are not empty strings, the exception of a transaction carries the hash of
  that transaction, and the hashes of a batch are distinct.
\<close>

theorem evm_mine_aggregates_exceptions:
  assumes ve: "VM_EXCEPTION \<noteq> []" "VM_EXCEPTIONS \<noteq> []"
    and mined: "mine (- 1) timestamp True bc = (Inr transactions, bc')"
    and some: "t0 \<in> set transactions" "execException t0 = Some e0"
    and wf: "\<forall>t\<in>set transactions. \<forall>e. execException t = Some e \<longrightarrow>
               data_hash (exc_data e) = tx_hash t"
    and dist: "distinct (map tx_hash transactions)"
  shows "\<exists>m d.
      assertExceptionalTransactions VM_EXCEPTION VM_EXCEPTIONS transactions = Inl (Error m d) \<and>
      evm_mine VM_EXCEPTION VM_EXCEPTIONS mine True
        (case timestamp of None \<Rightarrow> NoArg | Some t \<Rightarrow> Timestamp t) bc = (Inl (Error m d), bc') \<and>
      (\<forall>i blocks. i < blocks \<longrightarrow>
         evm_mine_loop VM_EXCEPTION VM_EXCEPTIONS mine True timestamp i blocks bc
           = (Inl (Error m d), bc')) \<and>
      (\<forall>blocks. 0 < (case blocks of None \<Rightarrow> 1 | Some b \<Rightarrow> b) \<longrightarrow>
         evm_mine VM_EXCEPTION VM_EXCEPTIONS mine True (Options timestamp blocks) bc
           = (Inl (Error m d), bc')) \<and>
      (\<forall>t\<in>set transactions. \<forall>e. execException t = Some e \<longrightarrow>
         sublist (exc_message e) m \<and> d (tx_hash t) = Some (exc_data e))"
proof -
  obtain m d where
    thrown: "assertExceptionalTransactions VM_EXCEPTION VM_EXCEPTIONS transactions = Inl (Error m d)"
    and all: "\<forall>t\<in>set transactions. \<forall>e. execException t = Some e \<longrightarrow>
         sublist (exc_message e) m \<and> d (tx_hash t) = Some (exc_data e)"
    using aggregated_error[OF ve some wf dist] by blast
  have once: "mine_and_assert VM_EXCEPTION VM_EXCEPTIONS mine True timestamp bc
      = (Inl (Error m d), bc')"
    using mined thrown by (simp add: mine_and_assert_def)
  have single: "evm_mine VM_EXCEPTION VM_EXCEPTIONS mine True
        (case timestamp of None \<Rightarrow> NoArg | Some t \<Rightarrow> Timestamp t) bc = (Inl (Error m d), bc')"
    using once by (cases timestamp) (simp_all add: evm_mine_def)
  have loop: "evm_mine_loop VM_EXCEPTION VM_EXCEPTIONS mine True timestamp i blocks bc
           = (Inl (Error m d), bc')" if "i < blocks" for i blocks
    using that once by (subst evm_mine_loop.simps) simp
  have opts: "evm_mine VM_EXCEPTION VM_EXCEPTIONS mine True (Options timestamp blocks) bc
           = (Inl (Error m d), bc')" if "0 < (case blocks of None \<Rightarrow> 1 | Some b \<Rightarrow> b)" for blocks
    using loop[OF that] by (simp add: evm_mine_def)
  show ?thesis using thrown single loop opts all by blast
qed

theorem evm_mine_aggregates_exceptions_witness:
  "\<exists>m d. evm_mine ''VM Exception: '' ''Multiple VM Exceptions: '' example_mine True NoArg 0
            = (Inl (Error m d), 1) \<and>
     evm_mine ''VM Exception: '' ''Multiple VM Exceptions: '' example_mine True
            (Options None (Some 3)) 0 = (Inl (Error m d), 1) \<and>
     sublist ''revert'' m \<and> sublist ''out of gas'' m \<and>
     d ''0xaa'' = Some \<lparr>data_hash = ''0xaa'', data_rest = ''pc=7''\<rparr> \<and>
     d ''0xbb'' = Some \<lparr>data_hash = ''0xbb'', data_rest = ''pc=9''\<rparr>"
proof -
  let ?txs = "[example_tx_a, example_tx_ok, example_tx_b]"
  have ve: "''VM Exception: '' \<noteq> []" "''Multiple VM Exceptions: '' \<noteq> []" by simp_all
  have mined: "example_mine (- 1) None True 0 = (Inr ?txs, 1)"
    by (simp add: example_mine_def)
  have some: "example_tx_a \<in> set ?txs"
    "execException example_tx_a = Some \<lparr>exc_name = ''Error'', exc_message = ''revert'',
       exc_data = \<lparr>data_hash = ''0xaa'', data_rest = ''pc=7''\<rparr>\<rparr>"
    by (simp_all add: example_tx_a_def)
  have wf: "\<forall>t\<in>set ?txs. \<forall>e. execException t = Some e \<longrightarrow> data_hash (exc_data e) = tx_hash t"
    by (auto simp: example_tx_a_def example_tx_b_def example_tx_ok_def)
  have dist: "distinct (map tx_hash ?txs)"
    by (simp add: example_tx_a_def example_tx_b_def example_tx_ok_def)
  obtain m d where
    r: "evm_mine ''VM Exception: '' ''Multiple VM Exceptions: '' example_mine True
        (case None of None \<Rightarrow> NoArg | Some t \<Rightarrow> Timestamp t) 0 = (Inl (Error m d), 1)"
    and o: "\<forall>blocks. 0 < (case blocks of None \<Rightarrow> 1 | Some b \<Rightarrow> b) \<longrightarrow>
         evm_mine ''VM Exception: '' ''Multiple VM Exceptions: '' example_mine True
           (Options None blocks) 0 = (Inl (Error m d), 1)"
    and a: "\<forall>t\<in>set ?txs. \<forall>e. execException t = Some e \<longrightarrow>
         sublist (exc_message e) m \<and> d (tx_hash t) = Some (exc_data e)"
    using evm_mine_aggregates_exceptions[where mine = example_mine and timestamp = None and bc = 0, OF ve mined some wf dist] by blast
  have "sublist ''revert'' m \<and> d ''0xaa'' = Some \<lparr>data_hash = ''0xaa'', data_rest = ''pc=7''\<rparr>"
    using a some by (auto simp: example_tx_a_def)
  moreover have "sublist ''out of gas'' m \<and> d ''0xbb'' = Some \<lparr>data_hash = ''0xbb'', data_rest = ''pc=9''\<rparr>"
    using a by (auto simp: example_tx_b_def)
  moreover have "evm_mine ''VM Exception: '' ''Multiple VM Exceptions: '' example_mine True
            (Options None (Some 3)) 0 = (Inl (Error m d), 1)"
    using o by simp
  ultimately show ?thesis using r by auto
qed

text \<open>
  The error of the batch above, in full. The message names the hash of the second
  failed transaction; the hash of the first is a key of the data only.
\<close>

lemma example_batch_error:
  "assertExceptionalTransactions ''VM Exception: '' ''Multiple VM Exceptions: ''
     [example_tx_a, example_tx_ok, example_tx_b]
   = Inl (Error (''Multiple VM Exceptions: revert'' @ newline @
                 ''0xbb: Error: out of gas'' @ newline)
            [''0xaa'' \<mapsto> \<lparr>data_hash = ''0xaa'', data_rest = ''pc=7''\<rparr>,
             ''0xbb'' \<mapsto> \<lparr>data_hash = ''0xbb'', data_rest = ''pc=9''\<rparr>])"
  by (simp add: assertExceptionalTransactions_def aet_callback_def aet_init_def js_truthy_def
      example_tx_a_def example_tx_b_def example_tx_ok_def error_toString_def)


section \<open>The number of blocks \<open>evm_mine\<close> mines\<close>

lemma forEach_no_exception:
  "exceptional txs = [] \<Longrightarrow> forEach (aet_callback VE VES) txs v = Inr v"
  by (induction txs) (auto simp: aet_callback_def split: option.splits)

lemma assert_no_exception:
  "exceptional txs = [] \<Longrightarrow> assertExceptionalTransactions VE VES txs = Inr ()"
  by (simp add: assertExceptionalTransactions_def forEach_no_exception aet_init_def)

lemma mine_and_assert_clean:
  assumes "mines_cleanly mine strict timestamp (Suc k) bc"
  shows "mine_and_assert VE VES mine strict timestamp bc
           = (Inr (), snd (mine (- 1) timestamp True bc))"
  using assms
  by (auto simp: mine_and_assert_def assert_no_exception split: prod.splits sum.splits if_splits)

lemma mines_cleanly_rest:
  assumes "mines_cleanly mine strict timestamp (Suc k) bc"
  shows "mines_cleanly mine strict timestamp k (snd (mine (- 1) timestamp True bc))"
  using assms by (auto split: prod.splits sum.splits)

lemma evm_mine_loop_clean:
  "mines_cleanly mine strict timestamp k bc \<Longrightarrow> blocks - i = int k \<Longrightarrow>
   evm_mine_loop VE VES mine strict timestamp i blocks bc
     = (Inr (), after_mining mine timestamp k bc)"
proof (induction k arbitrary: i bc)
  case 0
  then show ?case by (subst evm_mine_loop.simps) simp
next
  case (Suc k)
  have lt: "i < blocks" and rest: "blocks - (i + 1) = int k" using Suc.prems(2) by simp_all
  note step = mine_and_assert_clean[OF Suc.prems(1), of VE VES]
    mines_cleanly_rest[OF Suc.prems(1)]
  have "evm_mine_loop VE VES mine strict timestamp i blocks bc
      = evm_mine_loop VE VES mine strict timestamp (i + 1) blocks
          (snd (mine (- 1) timestamp True bc))"
    using lt step(1) by (subst evm_mine_loop.simps) simp
  also have "\<dots> = (Inr (), after_mining mine timestamp k (snd (mine (- 1) timestamp True bc)))"
    by (rule Suc.IH[OF step(2) rest])
  finally show ?case by simp
qed

lemma evm_mine_loop_none:
  "blocks \<le> i \<Longrightarrow> evm_mine_loop VE VES mine strict timestamp i blocks bc = (Inr (), bc)"
  by (subst evm_mine_loop.simps) simp

lemma after_mining_spec_mine:
  "after_mining spec_mine timestamp k bc =
     bc\<lparr>committed_blocks := committed_blocks bc @
            (case k of 0 \<Rightarrow> [] | Suc j \<Rightarrow> pending_pool bc # replicate j []),
         pending_pool := (case k of 0 \<Rightarrow> pending_pool bc | Suc j \<Rightarrow> [])\<rparr>"
proof (induction k arbitrary: bc)
  case 0
  then show ?case by simp
next
  case (Suc k)
  let ?bc1 = "bc\<lparr>committed_blocks := committed_blocks bc @ [pending_pool bc], pending_pool := []\<rparr>"
  have one: "snd (spec_mine (- 1) timestamp True bc) = ?bc1"
    by (simp add: spec_mine_def)
  have "after_mining spec_mine timestamp (Suc k) bc = after_mining spec_mine timestamp k ?bc1"
    using one by simp
  also note Suc.IH[of ?bc1]
  finally show ?case
    by (cases k) (simp_all add: replicate_append_same)
qed

text \<open>
  C4, as amended. With the \<open>blocks\<close> option \<open>n\<close> (1 when the option is absent),
  \<open>evm_mine\<close> calls \<open>blockchain.mine(-1, timestamp, true)\<close> exactly \<open>n\<close> times in
  sequence, provided no call rejects and, under strict failure reporting, no mined
  transaction failed; it then returns the constant string \<open>"0x0"\<close>. On the miner of the
  spec each call commits one block: the first takes the pool, the others are empty.
\<close>

theorem evm_mine_mines_blocks:
  assumes "mines_cleanly mine strict timestamp (nat (case blocks of None \<Rightarrow> 1 | Some b \<Rightarrow> b)) bc"
  shows "evm_mine VM_EXCEPTION VM_EXCEPTIONS mine strict (Options timestamp blocks) bc
           = (Inr ''0x0'',
              after_mining mine timestamp (nat (case blocks of None \<Rightarrow> 1 | Some b \<Rightarrow> b)) bc)
       \<and> committed_blocks (after_mining spec_mine timestamp (Suc k) cm)
           = committed_blocks cm @ pending_pool cm # replicate k []"
proof -
  let ?n = "case blocks of None \<Rightarrow> 1 | Some b \<Rightarrow> b"
  have "evm_mine_loop VM_EXCEPTION VM_EXCEPTIONS mine strict timestamp 0 ?n bc
      = (Inr (), after_mining mine timestamp (nat ?n) bc)"
  proof (cases "0 \<le> ?n")
    case True
    then have "?n - 0 = int (nat ?n)" by simp
    then show ?thesis by (rule evm_mine_loop_clean[OF assms])
  next
    case False
    then show ?thesis by (simp add: evm_mine_loop_none)
  qed
  then have "evm_mine VM_EXCEPTION VM_EXCEPTIONS mine strict (Options timestamp blocks) bc
           = (Inr ''0x0'', after_mining mine timestamp (nat ?n) bc)"
    by (simp add: evm_mine_def)
  moreover have "committed_blocks (after_mining spec_mine timestamp (Suc k) cm)
           = committed_blocks cm @ pending_pool cm # replicate k []"
    by (subst after_mining_spec_mine) simp
  ultimately show ?thesis by blast
qed

theorem evm_mine_mines_blocks_witness:
  "evm_mine ''VM Exception: '' ''Multiple VM Exceptions: '' spec_mine True
      (Options None (Some 3)) example_chain
     = (Inr ''0x0'', \<lparr>committed_blocks = [[], [example_tx_ok], [], []], pending_pool = []\<rparr>)"
proof -
  have three: "nat (case Some 3 of None \<Rightarrow> 1 | Some b \<Rightarrow> b) = Suc (Suc (Suc 0))" by simp
  have clean: "mines_cleanly spec_mine True None
      (nat (case Some 3 of None \<Rightarrow> 1 | Some b \<Rightarrow> b)) example_chain"
    unfolding three by (simp add: spec_mine_def example_chain_def example_tx_ok_def)
  have "after_mining spec_mine None (nat (case Some 3 of None \<Rightarrow> 1 | Some b \<Rightarrow> b)) example_chain
      = \<lparr>committed_blocks = [[], [example_tx_ok], [], []], pending_pool = []\<rparr>"
    unfolding three by (simp add: spec_mine_def example_chain_def)
  then show ?thesis
    using evm_mine_mines_blocks[where mine = spec_mine, OF clean] by simp
qed

text \<open>
  The claim as stated fails twice. The value returned is \<open>"0x0"\<close> whether two or three
  blocks were committed, so it is not the number of blocks. And under strict failure
  reporting a failed transaction in the first block makes a call for three blocks
  throw after one.
\<close>

theorem evm_mine_returns_count_counterexample:
  "fst (evm_mine ''VM Exception: '' ''Multiple VM Exceptions: '' spec_mine False
          (Options None (Some 2)) example_chain) = Inr ''0x0'' \<and>
   length (committed_blocks (snd (evm_mine ''VM Exception: '' ''Multiple VM Exceptions: ''
          spec_mine False (Options None (Some 2)) example_chain)))
     = length (committed_blocks example_chain) + 2 \<and>
   fst (evm_mine ''VM Exception: '' ''Multiple VM Exceptions: '' spec_mine False
          (Options None (Some 3)) example_chain) = Inr ''0x0'' \<and>
   length (committed_blocks (snd (evm_mine ''VM Exception: '' ''Multiple VM Exceptions: ''
          spec_mine False (Options None (Some 3)) example_chain)))
     = length (committed_blocks example_chain) + 3 \<and>
   fst (evm_mine ''VM Exception: '' ''Multiple VM Exceptions: '' spec_mine True
          (Options None (Some 3)) example_chain_failing)
     = Inl (Error ''VM Exception: revert''
              [''0xaa'' \<mapsto> \<lparr>data_hash = ''0xaa'', data_rest = ''pc=7''\<rparr>]) \<and>
   length (committed_blocks (snd (evm_mine ''VM Exception: '' ''Multiple VM Exceptions: ''
          spec_mine True (Options None (Some 3)) example_chain_failing)))
     = length (committed_blocks example_chain_failing) + 1"
  by (simp add: evm_mine_def evm_mine_loop.simps mine_and_assert_def spec_mine_def
      example_chain_def example_chain_failing_def example_tx_a_def
      assertExceptionalTransactions_def aet_callback_def aet_init_def js_truthy_def)

section \<open>Polling a filter\<close>

lemma listener_updates_irrelevant [simp]:
  "listener R M (f\<lparr>updates := us\<rparr>) ev = listener R M f ev"
  by (cases ev) (simp_all add: listener_def split: option.splits)

lemma pushed_updates_irrelevant [simp]:
  "pushed R M (f\<lparr>updates := us\<rparr>) ops = pushed R M f ops"
  by (induction R M f ops rule: pushed.induct) simp_all

lemma poll_registered:
  "filters st filterId = Some f \<Longrightarrow>
   eth_getFilterChanges filterId st
     = (Inr (updates f), st\<lparr>filters := (filters st)(filterId \<mapsto> f\<lparr>updates := []\<rparr>)\<rparr>)"
  by (simp add: eth_getFilterChanges_def)

lemma poll_other:
  "filters st filterId = Some f \<Longrightarrow> i \<noteq> filterId \<Longrightarrow>
   filters (snd (eth_getFilterChanges i st)) filterId = Some f"
  by (simp add: eth_getFilterChanges_def split: option.splits)

lemma emit_registered:
  "filters st filterId = Some f \<Longrightarrow>
   filters (emit R M ev st) filterId = Some (f\<lparr>updates := updates f @ listener R M f ev\<rparr>)"
  by (simp add: emit_def)

lemma run_ops_conserves:
  "filters st filterId = Some f \<Longrightarrow>
   returned filterId (fst (run_ops R M ops st)) @ buffer filterId (snd (run_ops R M ops st))
     = updates f @ pushed R M f ops"
proof (induction ops arbitrary: st f)
  case Nil
  then show ?case by (simp add: buffer_def)
next
  case (Cons op ops)
  show ?case
  proof (cases op)
    case (Emit ev)
    have "filters (emit R M ev st) filterId = Some (f\<lparr>updates := updates f @ listener R M f ev\<rparr>)"
      by (rule emit_registered[OF Cons.prems])
    from Cons.IH[OF this] show ?thesis using Emit by simp
  next
    case (Poll i)
    obtain r st' where p: "eth_getFilterChanges i st = (r, st')" by (cases "eth_getFilterChanges i st")
    obtain rs st'' where q: "run_ops R M ops st' = (rs, st'')" by (cases "run_ops R M ops st'")
    show ?thesis
    proof (cases "i = filterId")
      case True
      have r: "r = Inr (updates f)"
        and st': "st' = st\<lparr>filters := (filters st)(filterId \<mapsto> f\<lparr>updates := []\<rparr>)\<rparr>"
        using p poll_registered[OF Cons.prems] True by simp_all
      have "filters st' filterId = Some (f\<lparr>updates := []\<rparr>)" using st' by simp
      from Cons.IH[OF this, unfolded q] show ?thesis
        using Poll p q r True by simp
    next
      case False
      have "filters st' filterId = Some f"
        using poll_other[OF Cons.prems False] p by simp
      from Cons.IH[OF this, unfolded q] show ?thesis
        using Poll p q False by (cases r) simp_all
    qed
  qed
qed

text \<open>
  C5. A poll of a registered filter returns the filter's buffer and leaves it empty in
  the same step, every other filter untouched; a second poll right after it returns the
  empty list. Over any run of events and polls, what the polls of the filter returned,
  followed by what is still buffered, is what the buffer held at the start followed by
  what the listener pushed, entry for entry: no entry is returned by two polls.
\<close>

theorem eth_getFilterChanges_drains:
  assumes "filters st filterId = Some f"
  shows "eth_getFilterChanges filterId st
           = (Inr (updates f), st\<lparr>filters := (filters st)(filterId \<mapsto> f\<lparr>updates := []\<rparr>)\<rparr>)
       \<and> fst (eth_getFilterChanges filterId (snd (eth_getFilterChanges filterId st))) = Inr []
       \<and> returned filterId (fst (run_ops R M ops st)) @ buffer filterId (snd (run_ops R M ops st))
           = updates f @ pushed R M f ops"
proof -
  have first: "eth_getFilterChanges filterId st
      = (Inr (updates f), st\<lparr>filters := (filters st)(filterId \<mapsto> f\<lparr>updates := []\<rparr>)\<rparr>)"
    by (rule poll_registered[OF assms])
  have "filters (snd (eth_getFilterChanges filterId st)) filterId = Some (f\<lparr>updates := []\<rparr>)"
    using first by simp
  from poll_registered[OF this]
  have second: "fst (eth_getFilterChanges filterId (snd (eth_getFilterChanges filterId st))) = Inr []"
    by simp
  show ?thesis using first second run_ops_conserves[OF assms] by blast
qed

theorem eth_getFilterChanges_drains_witness:
  "fst (eth_getFilterChanges 1 example_filters) = Inr [LogEntry (''X'', ''first'')]
   \<and> fst (eth_getFilterChanges 1 (snd (eth_getFilterChanges 1 example_filters))) = Inr []
   \<and> returned 1 (fst (run_ops example_range example_matching
         [Poll 1, Poll 1, Emit example_block_logs, Poll 1] example_filters))
       = [LogEntry (''X'', ''first''), LogEntry (''X'', ''first'')]
   \<and> buffer 1 (snd (run_ops example_range example_matching
         [Poll 1, Poll 1, Emit example_block_logs, Poll 1] example_filters)) = []"
proof -
  let ?f = "\<lparr>updates = [LogEntry (''X'', ''first'')], filter_args = Some ''X'', ftype = FilterLog\<rparr>"
  let ?ops = "[Poll 1, Poll 1, Emit example_block_logs, Poll 1]"
  have reg: "filters example_filters 1 = Some ?f"
    by (simp add: example_filters_def eth_newFilter_def register_filter_def emit_def
        listener_def example_block_logs_def example_range_def example_matching_def)
  have pushed: "pushed example_range example_matching ?f ?ops = [LogEntry (''X'', ''first'')]"
    by (simp add: listener_def example_block_logs_def example_range_def example_matching_def)
  note drains = eth_getFilterChanges_drains[OF reg, of example_range example_matching ?ops]
  have "eth_getFilterChanges 1 example_filters
      = (Inr (updates ?f), example_filters\<lparr>filters := (filters example_filters)(1 \<mapsto> ?f\<lparr>updates := []\<rparr>)\<rparr>)"
    by (rule drains[THEN conjunct1])
  then have first: "fst (eth_getFilterChanges 1 example_filters) = Inr [LogEntry (''X'', ''first'')]"
    by simp
  have second: "fst (eth_getFilterChanges 1 (snd (eth_getFilterChanges 1 example_filters))) = Inr []"
    by (rule drains[THEN conjunct2, THEN conjunct1])
  have empty: "buffer 1 (snd (run_ops example_range example_matching ?ops example_filters)) = []"
    using reg
    by (simp add: eth_getFilterChanges_def emit_def buffer_def split: option.splits prod.splits)
  have "returned 1 (fst (run_ops example_range example_matching ?ops example_filters))
          @ buffer 1 (snd (run_ops example_range example_matching ?ops example_filters))
      = updates ?f @ pushed example_range example_matching ?f ?ops"
    by (rule drains[THEN conjunct2, THEN conjunct2])
  then have "returned 1 (fst (run_ops example_range example_matching ?ops example_filters)) @ []
      = updates ?f @ [LogEntry (''X'', ''first'')]"
    unfolding empty pushed .
  then have all: "returned 1 (fst (run_ops example_range example_matching ?ops example_filters))
      = [LogEntry (''X'', ''first''), LogEntry (''X'', ''first'')]"
    by (simp del: run_ops.simps)
  show ?thesis using first second all empty by blast
qed

section \<open>Lookups that find nothing\<close>

text \<open>
  C8. When the lookup of a block number or of a block hash finds no committed block,
  whether its promise is rejected or resolves to \<open>null\<close>, \<open>eth_getBlockByNumber\<close> and
  \<open>eth_getBlockByHash\<close> return \<open>null\<close> and do not throw; and for the hash of a
  transaction that is not in the database of mined transactions,
  \<open>eth_getTransactionReceipt\<close> returns \<open>null\<close>.
\<close>

theorem lookups_return_null:
  assumes "\<forall>b. blocks_get number \<noteq> Inr (Some b)"
    and "\<forall>b. blocks_getByHash hash \<noteq> Inr (Some b)"
    and "transactions_db db transactionHash = None"
  shows "eth_getBlockByNumber blocks_get toJSON number transactions = Inr None
       \<and> eth_getBlockByHash blocks_getByHash toJSON hash transactions = Inr None
       \<and> fst (eth_getTransactionReceipt blocks_get' blockNumber receipt_toJSON options db
                 transactionHash) = Inr None"
proof -
  have "(case blocks_get number of Inl e \<Rightarrow> None | Inr b \<Rightarrow> b) = None"
    using assms(1) by (auto split: sum.splits)
  then have byNumber: "eth_getBlockByNumber blocks_get toJSON number transactions = Inr None"
    by (simp add: eth_getBlockByNumber_def)
  have "(case blocks_getByHash hash of Inl e \<Rightarrow> None | Inr b \<Rightarrow> b) = None"
    using assms(2) by (auto split: sum.splits)
  then have byHash: "eth_getBlockByHash blocks_getByHash toJSON hash transactions = Inr None"
    by (simp add: eth_getBlockByHash_def)
  have receipt: "fst (eth_getTransactionReceipt blocks_get' blockNumber receipt_toJSON options db
                 transactionHash) = Inr None"
    using assms(3) by (simp add: eth_getTransactionReceipt_def)
  show ?thesis using byNumber byHash receipt by blast
qed

theorem lookups_return_null_witness:
  "eth_getBlockByNumber example_blocks_get example_toJSON 7 False = Inr None
   \<and> eth_getBlockByHash example_blocks_getByHash example_toJSON ''0xff'' False = Inr None
   \<and> fst (eth_getTransactionReceipt example_blocks_get (\<lambda>t. t) (\<lambda>r b t. r)
            \<lparr>blockTime = 0, legacyInstamine = False\<rparr> example_db ''0xdd'') = Inr None"
proof -
  have a: "\<forall>b. example_blocks_get 7 \<noteq> Inr (Some b)" by (simp add: example_blocks_get_def)
  have b: "\<forall>b. example_blocks_getByHash ''0xff'' \<noteq> Inr (Some b)"
    by (simp add: example_blocks_getByHash_def)
  have c: "transactions_db example_db ''0xdd'' = None" by (simp add: example_db_def)
  show ?thesis
    using lookups_return_null[where blocks_get = example_blocks_get and number = 7
        and blocks_getByHash = example_blocks_getByHash and hash = "''0xff''"
        and toJSON = example_toJSON and transactions = False
        and blocks_get' = example_blocks_get and blockNumber = "\<lambda>t. t"
        and receipt_toJSON = "\<lambda>r b t. r" and options = "\<lparr>blockTime = 0, legacyInstamine = False\<rparr>",
        OF a b c]
    by blast
qed

text \<open>
  C10. When the block reference resolves to no block, \<open>eth_getTransactionByBlockNumberAndIndex\<close>
  reads \<open>transactions\<close> of \<open>null\<close> and fails with a \<open>TypeError\<close>, whatever the index,
  while \<open>eth_getTransactionByBlockHashAndIndex\<close> returns \<open>null\<close> for a missing block.
\<close>

theorem transaction_by_index_of_missing_block:
  assumes "\<forall>b. blocks_get number \<noteq> Inr (Some b)"
    and "\<forall>b. blocks_getByHash hash \<noteq> Inr (Some b)"
  shows "(\<exists>m. eth_getTransactionByBlockNumberAndIndex blocks_get toJSON parseInt10 number index
              = Inl (TypeError m))
       \<and> eth_getTransactionByBlockHashAndIndex blocks_getByHash toJSON hash index' = Inr Null"
proof -
  have "(case blocks_get number of Inl e \<Rightarrow> None | Inr b \<Rightarrow> b) = None"
    using assms(1) by (auto split: sum.splits)
  then have "eth_getBlockByNumber blocks_get toJSON number True = Inr None"
    by (simp add: eth_getBlockByNumber_def)
  then have byNumber: "\<exists>m. eth_getTransactionByBlockNumberAndIndex blocks_get toJSON parseInt10
      number index = Inl (TypeError m)"
    by (simp add: eth_getTransactionByBlockNumberAndIndex_def)
  have "(case blocks_getByHash hash of Inl e \<Rightarrow> None | Inr b \<Rightarrow> b) = None"
    using assms(2) by (auto split: sum.splits)
  then have "eth_getBlockByHash blocks_getByHash toJSON hash True = Inr None"
    by (simp add: eth_getBlockByHash_def)
  then have "eth_getTransactionByBlockHashAndIndex blocks_getByHash toJSON hash index' = Inr Null"
    by (simp add: eth_getTransactionByBlockHashAndIndex_def)
  then show ?thesis using byNumber by blast
qed

theorem transaction_by_index_of_missing_block_witness:
  "(\<exists>m. eth_getTransactionByBlockNumberAndIndex example_blocks_get example_toJSON Some 7 0
          = (Inl (TypeError m) :: js_error + string js_value))
   \<and> eth_getTransactionByBlockHashAndIndex example_blocks_getByHash example_toJSON ''0xff'' 0
       = (Inr Null :: js_error + string js_value)
   \<and> eth_getTransactionByBlockHashAndIndex example_blocks_getByHash example_toJSON ''0xb0'' 0
       = Inr (Value ''0xaa'')"
proof -
  have a: "\<forall>b. example_blocks_get 7 \<noteq> Inr (Some b)" by (simp add: example_blocks_get_def)
  have b: "\<forall>b. example_blocks_getByHash ''0xff'' \<noteq> Inr (Some b)"
    by (simp add: example_blocks_getByHash_def)
  have found: "eth_getTransactionByBlockHashAndIndex example_blocks_getByHash example_toJSON
      ''0xb0'' 0 = Inr (Value ''0xaa'')"
    by (simp add: eth_getTransactionByBlockHashAndIndex_def eth_getBlockByHash_def
        example_blocks_getByHash_def example_toJSON_def array_get_def)
  show ?thesis
    using transaction_by_index_of_missing_block[where blocks_get = example_blocks_get
        and number = 7 and blocks_getByHash = example_blocks_getByHash and hash = "''0xff''"
        and toJSON = example_toJSON and ?parseInt10.0 = Some and index = 0 and index' = 0,
        OF a b] found
    by blast
qed

section \<open>Submitting a transaction\<close>

lemma send_missing_sender:
  "tx_from (fromRpc transaction) = None \<Longrightarrow>
   eth_sendTransaction fromRpc estimate queueTransaction options wallet transaction bc
     = (Inl (plain_error ''from not found; is required''), bc)"
  by (simp add: eth_sendTransaction_def)

lemma send_not_unlocked:
  "tx_from (fromRpc transaction) = Some a \<Longrightarrow> unlockedAccounts wallet a = None \<Longrightarrow>
   eth_sendTransaction fromRpc estimate queueTransaction options wallet transaction bc
     = (Inl (plain_error
          (if a \<in> knownAccounts wallet then ''authentication needed: password or unlock''
           else ''sender account not recognized'')), bc)"
  by (simp add: eth_sendTransaction_def)

lemma send_unlocked:
  "tx_from (fromRpc transaction) = Some a \<Longrightarrow> unlockedAccounts wallet a = Some k \<Longrightarrow>
   fill_gas estimate options transaction bc (fromRpc transaction) = Inr tx1 \<Longrightarrow>
   eth_sendTransaction fromRpc estimate queueTransaction options wallet transaction bc
     = queueTransaction (fill_gasPrice options tx1) (Some k) bc"
  by (simp add: eth_sendTransaction_def)

lemma queue_accepted:
  "validate tx cm = None \<Longrightarrow>
   spec_queueTransaction validate sign tx secretKey cm
     = (Inr (tx_hash (sign tx secretKey)),
        cm\<lparr>pending_pool := pending_pool cm @ [sign tx secretKey]\<rparr>)"
  by (simp add: spec_queueTransaction_def)

lemma queue_rejected:
  "validate tx cm = Some reason \<Longrightarrow>
   spec_queueTransaction validate sign tx secretKey cm = (Inl (plain_error reason), cm)"
  by (simp add: spec_queueTransaction_def)

text \<open>
  C6. \<open>eth_sendTransaction\<close> throws, with the blockchain and so the pool untouched,
  when the sender is missing (\<open>from not found; is required\<close>), when it is neither known
  nor unlocked (\<open>sender account not recognized\<close>) and when it is known but locked
  (\<open>authentication needed: password or unlock\<close>). For an unlocked sender, once the gas
  limit is settled, the method returns what \<open>blockchain.queueTransaction\<close> returns, from
  the state it leaves, and adds no step of its own. On the pool of the spec, every
  submission that the pool accepts returns the hash of the signed transaction, which
  has joined the pool, while the committed blocks are the ones there were: the call
  does not wait for a block. A submission that the pool rejects throws its reason and
  leaves the pool as it was.
\<close>

theorem eth_sendTransaction_validates_sender:
  assumes "fromRpc transaction = tx"
  shows "(tx_from tx = None \<longrightarrow>
            eth_sendTransaction fromRpc estimate queueTransaction options wallet transaction bc
              = (Inl (plain_error ''from not found; is required''), bc))
       \<and> (\<forall>a. tx_from tx = Some a \<and> unlockedAccounts wallet a = None \<and> a \<notin> knownAccounts wallet \<longrightarrow>
            eth_sendTransaction fromRpc estimate queueTransaction options wallet transaction bc
              = (Inl (plain_error ''sender account not recognized''), bc))
       \<and> (\<forall>a. tx_from tx = Some a \<and> unlockedAccounts wallet a = None \<and> a \<in> knownAccounts wallet \<longrightarrow>
            eth_sendTransaction fromRpc estimate queueTransaction options wallet transaction bc
              = (Inl (plain_error ''authentication needed: password or unlock''), bc))
       \<and> (\<forall>a k tx1. tx_from tx = Some a \<and> unlockedAccounts wallet a = Some k \<and>
              fill_gas estimate options transaction bc tx = Inr tx1 \<longrightarrow>
            eth_sendTransaction fromRpc estimate queueTransaction options wallet transaction bc
              = queueTransaction (fill_gasPrice options tx1) (Some k) bc)
       \<and> (\<forall>a k tx1. tx_from tx = Some a \<and> unlockedAccounts wallet a = Some k \<and>
              fill_gas pool_estimate options transaction cm tx = Inr tx1 \<and>
              validate (fill_gasPrice options tx1) cm = None \<longrightarrow>
            fst (eth_sendTransaction fromRpc pool_estimate (spec_queueTransaction validate sign)
                   options wallet transaction cm)
              = Inr (tx_hash (sign (fill_gasPrice options tx1) (Some k)))
            \<and> pending_pool (snd (eth_sendTransaction fromRpc pool_estimate
                   (spec_queueTransaction validate sign) options wallet transaction cm))
              = pending_pool cm @ [sign (fill_gasPrice options tx1) (Some k)]
            \<and> committed_blocks (snd (eth_sendTransaction fromRpc pool_estimate
                   (spec_queueTransaction validate sign) options wallet transaction cm))
              = committed_blocks cm)
       \<and> (\<forall>a k tx1 reason. tx_from tx = Some a \<and> unlockedAccounts wallet a = Some k \<and>
              fill_gas pool_estimate options transaction cm tx = Inr tx1 \<and>
              validate (fill_gasPrice options tx1) cm = Some reason \<longrightarrow>
            eth_sendTransaction fromRpc pool_estimate (spec_queueTransaction validate sign)
                   options wallet transaction cm
              = (Inl (plain_error reason), cm))"
proof -
  have missing: "eth_sendTransaction fromRpc estimate queueTransaction options wallet transaction bc
      = (Inl (plain_error ''from not found; is required''), bc)" if "tx_from tx = None"
    using that assms send_missing_sender[of fromRpc transaction] by simp
  have unrecognized: "eth_sendTransaction fromRpc estimate queueTransaction options wallet
      transaction bc = (Inl (plain_error ''sender account not recognized''), bc)"
    if "tx_from tx = Some a \<and> unlockedAccounts wallet a = None \<and> a \<notin> knownAccounts wallet" for a
    using that assms send_not_unlocked[of fromRpc transaction a wallet] by simp
  have locked: "eth_sendTransaction fromRpc estimate queueTransaction options wallet
      transaction bc = (Inl (plain_error ''authentication needed: password or unlock''), bc)"
    if "tx_from tx = Some a \<and> unlockedAccounts wallet a = None \<and> a \<in> knownAccounts wallet" for a
    using that assms send_not_unlocked[of fromRpc transaction a wallet] by simp
  have queued: "eth_sendTransaction fromRpc estimate queueTransaction options wallet
      transaction bc = queueTransaction (fill_gasPrice options tx1) (Some k) bc"
    if "tx_from tx = Some a \<and> unlockedAccounts wallet a = Some k \<and>
        fill_gas estimate options transaction bc tx = Inr tx1" for a k tx1
    using that assms send_unlocked[of fromRpc transaction a wallet k estimate options bc tx1]
    by simp
  have accepted: "fst (eth_sendTransaction fromRpc pool_estimate
        (spec_queueTransaction validate sign) options wallet transaction cm)
          = Inr (tx_hash (sign (fill_gasPrice options tx1) (Some k)))
      \<and> pending_pool (snd (eth_sendTransaction fromRpc pool_estimate
        (spec_queueTransaction validate sign) options wallet transaction cm))
          = pending_pool cm @ [sign (fill_gasPrice options tx1) (Some k)]
      \<and> committed_blocks (snd (eth_sendTransaction fromRpc pool_estimate
        (spec_queueTransaction validate sign) options wallet transaction cm))
          = committed_blocks cm"
    if h: "tx_from tx = Some a \<and> unlockedAccounts wallet a = Some k \<and>
        fill_gas pool_estimate options transaction cm tx = Inr tx1 \<and>
        validate (fill_gasPrice options tx1) cm = None" for a k tx1
  proof -
    have "eth_sendTransaction fromRpc pool_estimate (spec_queueTransaction validate sign)
        options wallet transaction cm
        = spec_queueTransaction validate sign (fill_gasPrice options tx1) (Some k) cm"
      using h assms
        send_unlocked[of fromRpc transaction a wallet k pool_estimate options cm tx1]
      by simp
    also have "\<dots> = (Inr (tx_hash (sign (fill_gasPrice options tx1) (Some k))),
        cm\<lparr>pending_pool := pending_pool cm @ [sign (fill_gasPrice options tx1) (Some k)]\<rparr>)"
      using h by (simp add: queue_accepted)
    finally show ?thesis by simp
  qed
  have rejected: "eth_sendTransaction fromRpc pool_estimate (spec_queueTransaction validate sign)
        options wallet transaction cm = (Inl (plain_error reason), cm)"
    if h: "tx_from tx = Some a \<and> unlockedAccounts wallet a = Some k \<and>
        fill_gas pool_estimate options transaction cm tx = Inr tx1 \<and>
        validate (fill_gasPrice options tx1) cm = Some reason" for a k tx1 reason
  proof -
    have "eth_sendTransaction fromRpc pool_estimate (spec_queueTransaction validate sign)
        options wallet transaction cm
        = spec_queueTransaction validate sign (fill_gasPrice options tx1) (Some k) cm"
      using h assms
        send_unlocked[of fromRpc transaction a wallet k pool_estimate options cm tx1]
      by simp
    also have "\<dots> = (Inl (plain_error reason), cm)"
      using h by (simp add: queue_rejected)
    finally show ?thesis .
  qed
  show ?thesis
    using missing unrecognized locked queued accepted rejected by blast
qed

theorem eth_sendTransaction_validates_sender_witness:
  "eth_sendTransaction example_call example_estimate
      (spec_queueTransaction example_validate example_sign) example_send_options
      example_wallet [] example_chain
     = (Inl (plain_error ''from not found; is required''), example_chain)
   \<and> eth_sendTransaction example_call example_estimate
      (spec_queueTransaction example_validate example_sign) example_send_options
      example_wallet ''carol'' example_chain
     = (Inl (plain_error ''sender account not recognized''), example_chain)
   \<and> eth_sendTransaction example_call example_estimate
      (spec_queueTransaction example_validate example_sign) example_send_options
      example_wallet ''bob'' example_chain
     = (Inl (plain_error ''authentication needed: password or unlock''), example_chain)
   \<and> fst (eth_sendTransaction example_call example_estimate
      (spec_queueTransaction example_validate example_sign) example_send_options
      example_wallet ''alice'' example_chain) = Inr ''0xee''
   \<and> pending_pool (snd (eth_sendTransaction example_call example_estimate
      (spec_queueTransaction example_validate example_sign) example_send_options
      example_wallet ''alice'' example_chain))
     = [example_tx_ok, \<lparr>tx_hash = ''0xee'', execException = None\<rparr>]
   \<and> committed_blocks (snd (eth_sendTransaction example_call example_estimate
      (spec_queueTransaction example_validate example_sign) example_send_options
      example_wallet ''alice'' example_chain)) = [[]]
   \<and> eth_sendTransaction example_call example_estimate
      (spec_queueTransaction example_validate example_sign)
      \<lparr>defaultTransactionGasLimit = Some 200000, gasPrice = 2\<rparr>
      example_wallet ''alice'' example_chain
     = (Inl (plain_error ''gas-limit-exceeded''), example_chain)"
proof -
  let ?q = "spec_queueTransaction example_validate example_sign :: rpc_transaction \<Rightarrow> string option \<Rightarrow> chain_model \<Rightarrow> (js_error + string) \<times> chain_model"
  let ?big = "\<lparr>defaultTransactionGasLimit = Some 200000, gasPrice = 2\<rparr>"
  note v = eth_sendTransaction_validates_sender[where fromRpc = example_call
      and estimate = example_estimate and pool_estimate = example_estimate
      and queueTransaction = ?q and validate = example_validate and sign = example_sign
      and wallet = example_wallet and bc = example_chain and cm = example_chain, OF refl]
  have missing: "eth_sendTransaction example_call example_estimate ?q
      example_send_options example_wallet [] example_chain
     = (Inl (plain_error ''from not found; is required''), example_chain)"
    using v[of "[]" example_send_options, THEN conjunct1] by (simp add: example_call_def)
  have unknown: "eth_sendTransaction example_call example_estimate ?q
      example_send_options example_wallet ''carol'' example_chain
     = (Inl (plain_error ''sender account not recognized''), example_chain)"
    using v[of "''carol''" example_send_options, THEN conjunct2, THEN conjunct1, THEN spec,
        of "''carol''"]
    by (simp add: example_call_def example_wallet_def)
  have locked: "eth_sendTransaction example_call example_estimate ?q
      example_send_options example_wallet ''bob'' example_chain
     = (Inl (plain_error ''authentication needed: password or unlock''), example_chain)"
    using v[of "''bob''" example_send_options, THEN conjunct2, THEN conjunct2, THEN conjunct1,
        THEN spec, of "''bob''"]
    by (simp add: example_call_def example_wallet_def)
  have gas: "fill_gas example_estimate example_send_options ''alice'' example_chain
      (example_call ''alice'') = Inr ((example_call ''alice'')\<lparr>tx_gas := Some 90000\<rparr>)"
    by (simp add: fill_gas_def example_call_def example_send_options_def)
  have valid: "example_validate
      (fill_gasPrice example_send_options ((example_call ''alice'')\<lparr>tx_gas := Some 90000\<rparr>))
      example_chain = None"
    by (simp add: example_validate_def fill_gasPrice_def example_call_def)
  have sender: "tx_from (example_call ''alice'') = Some ''alice''"
    "unlockedAccounts example_wallet ''alice'' = Some ''key-a''"
    by (simp_all add: example_call_def example_wallet_def)
  have signed: "example_sign
      (fill_gasPrice example_send_options ((example_call ''alice'')\<lparr>tx_gas := Some 90000\<rparr>))
      (Some ''key-a'') = \<lparr>tx_hash = ''0xee'', execException = None\<rparr>"
    by (simp add: example_sign_def fill_gasPrice_def example_call_def)
  have accepted: "fst (eth_sendTransaction example_call example_estimate ?q
        example_send_options example_wallet ''alice'' example_chain) = Inr ''0xee''
      \<and> pending_pool (snd (eth_sendTransaction example_call example_estimate ?q
        example_send_options example_wallet ''alice'' example_chain))
          = [example_tx_ok, \<lparr>tx_hash = ''0xee'', execException = None\<rparr>]
      \<and> committed_blocks (snd (eth_sendTransaction example_call example_estimate ?q
        example_send_options example_wallet ''alice'' example_chain)) = [[]]"
    using v[of "''alice''" example_send_options, THEN conjunct2, THEN conjunct2,
        THEN conjunct2, THEN conjunct2, THEN conjunct1, THEN spec, THEN spec, THEN spec,
        of "''alice''" "''key-a''" "(example_call ''alice'')\<lparr>tx_gas := Some 90000\<rparr>"]
      sender gas valid signed
    by (simp add: example_chain_def)
  have gas': "fill_gas example_estimate ?big ''alice'' example_chain
      (example_call ''alice'') = Inr ((example_call ''alice'')\<lparr>tx_gas := Some 200000\<rparr>)"
    by (simp add: fill_gas_def example_call_def)
  have invalid: "example_validate
      (fill_gasPrice ?big ((example_call ''alice'')\<lparr>tx_gas := Some 200000\<rparr>))
      example_chain = Some ''gas-limit-exceeded''"
    by (simp add: example_validate_def fill_gasPrice_def example_call_def)
  have rejected: "eth_sendTransaction example_call example_estimate ?q ?big
      example_wallet ''alice'' example_chain
     = (Inl (plain_error ''gas-limit-exceeded''), example_chain)"
    using v[of "''alice''" ?big, THEN conjunct2, THEN conjunct2,
        THEN conjunct2, THEN conjunct2, THEN conjunct2, THEN spec, THEN spec, THEN spec, THEN spec,
        of "''alice''" "''key-a''" "(example_call ''alice'')\<lparr>tx_gas := Some 200000\<rparr>"
        "''gas-limit-exceeded''"]
      sender gas' invalid
    by simp
  show ?thesis using missing unknown locked accepted rejected by blast
qed

section \<open>Where \<open>evm_setStorageAt\<close> stops\<close>

text \<open>
  C9. Whenever the block is found, \<open>evm_setStorageAt\<close> throws the \<open>ReferenceError\<close> of
  the undeclared \<open>rlpDecode\<close>. By then it has made its private copy, a new trie object
  with the root of the shared one, and nothing else: the reference that
  \<open>blockchain.trie\<close> holds, the root of that trie, every other trie object and the node
  database are what they were, so no root is reassigned and no value is put, neither
  through the shared trie nor through the copy.
\<close>

theorem evm_setStorageAt_throws_before_write:
  assumes "getRaw blockNumber = Some block"
    and "shared_trie bc < next_ref bc"
  shows "fst (evm_setStorageAt getRaw address position storage blockNumber bc)
           = Inl (ReferenceError ''rlpDecode is not defined'')
       \<and> fst (snd (evm_setStorageAt getRaw address position storage blockNumber bc))
           = next_ref bc
       \<and> shared_trie (snd (snd (evm_setStorageAt getRaw address position storage blockNumber bc)))
           = shared_trie bc
       \<and> (\<forall>r. r \<noteq> next_ref bc \<longrightarrow>
             tries (snd (snd (evm_setStorageAt getRaw address position storage blockNumber bc))) r
               = tries bc r)
       \<and> tries (snd (snd (evm_setStorageAt getRaw address position storage blockNumber bc)))
             (shared_trie bc) = tries bc (shared_trie bc)
       \<and> trie_root (tries (snd (snd (evm_setStorageAt getRaw address position storage
             blockNumber bc))) (next_ref bc)) = trie_root (tries bc (shared_trie bc))
       \<and> nodes (snd (snd (evm_setStorageAt getRaw address position storage blockNumber bc)))
           = nodes bc"
  using assms by (simp add: evm_setStorageAt_def trie_copy_def)

theorem evm_setStorageAt_throws_before_write_witness:
  "evm_setStorageAt example_getRaw ''0xa1'' 5 ''0x3e8'' ''latest'' example_storage_chain
     = (Inl (ReferenceError ''rlpDecode is not defined''), 1,
        example_storage_chain\<lparr>tries := (tries example_storage_chain)(1 := \<lparr>trie_root = ''state-1''\<rparr>),
          next_ref := 2\<rparr>)
   \<and> tries (snd (snd (evm_setStorageAt example_getRaw ''0xa1'' 5 ''0x3e8'' ''latest''
        example_storage_chain))) 0 = \<lparr>trie_root = ''state-1''\<rparr>"
proof -
  have found: "example_getRaw ''latest'' = Some ''state-1''" by (simp add: example_getRaw_def)
  have alloc: "shared_trie example_storage_chain < next_ref example_storage_chain"
    by (simp add: example_storage_chain_def)
  note t = evm_setStorageAt_throws_before_write[where getRaw = example_getRaw
      and blockNumber = "''latest''" and bc = example_storage_chain
      and address = "''0xa1''" and position = 5 and storage = "''0x3e8''", OF found alloc]
  have shared: "tries (snd (snd (evm_setStorageAt example_getRaw ''0xa1'' 5 ''0x3e8'' ''latest''
        example_storage_chain))) 0 = \<lparr>trie_root = ''state-1''\<rparr>"
    using t by (simp add: example_storage_chain_def)
  have whole: "evm_setStorageAt example_getRaw ''0xa1'' 5 ''0x3e8'' ''latest'' example_storage_chain
     = (Inl (ReferenceError ''rlpDecode is not defined''), 1,
        example_storage_chain\<lparr>tries := (tries example_storage_chain)(1 := \<lparr>trie_root = ''state-1''\<rparr>),
          next_ref := 2\<rparr>)"
    by (simp add: evm_setStorageAt_def trie_copy_def example_getRaw_def example_storage_chain_def)
  show ?thesis using whole shared by blast
qed

section \<open>Snapshot ids and reverts\<close>

lemma run_snapshots_ids:
  "sorted_wrt (<) (fst (run_snapshots ops s))
   \<and> (\<forall>i \<in> set (fst (run_snapshots ops s)). counter s < i)
   \<and> counter s \<le> counter (snd (run_snapshots ops s))"
proof (induction ops arbitrary: s)
  case Nil
  then show ?case by simp
next
  case (Cons x ops)
  show ?case
  proof (cases x)
    case TakeSnapshot
    let ?s' = "s\<lparr>counter := counter s + 1,
                  snapshots := (snapshots s)(counter s + 1 \<mapsto> current s)\<rparr>"
    have step: "evm_snapshot s = (counter s + 1, ?s')"
      by (simp add: evm_snapshot_def snapshot_def)
    have run: "run_snapshots (x # ops) s
        = ((counter s + 1) # fst (run_snapshots ops ?s'), snd (run_snapshots ops ?s'))"
      using TakeSnapshot step by (simp split: prod.splits)
    have c: "counter ?s' = counter s + 1" by simp
    from Cons.IH[of ?s'] show ?thesis unfolding run c by auto
  next
    case (RevertTo k)
    have "counter (snd (evm_revert k s)) = counter s"
      by (simp add: evm_revert_def revert_def split: option.splits)
    with Cons.IH[of "snd (evm_revert k s)"] show ?thesis using RevertTo by simp
  next
    case (Change t)
    with Cons.IH[of "s\<lparr>current := t\<rparr>"] show ?thesis by simp
  qed
qed

lemma run_snapshots_consumed:
  "\<forall>j. k \<le> j \<and> j \<le> c \<longrightarrow> snapshots s j = None \<Longrightarrow> c \<le> counter s \<Longrightarrow>
   k \<le> j \<Longrightarrow> j \<le> c \<Longrightarrow> snapshots (snd (run_snapshots ops s)) j = None"
proof (induction ops arbitrary: s)
  case Nil
  then show ?case by simp
next
  case (Cons x ops)
  show ?case
  proof (cases x)
    case TakeSnapshot
    let ?s' = "s\<lparr>counter := counter s + 1,
                  snapshots := (snapshots s)(counter s + 1 \<mapsto> current s)\<rparr>"
    have step: "evm_snapshot s = (counter s + 1, ?s')"
      by (simp add: evm_snapshot_def snapshot_def)
    have run: "snd (run_snapshots (x # ops) s) = snd (run_snapshots ops ?s')"
      using TakeSnapshot step by (simp split: prod.splits)
    have inv: "\<forall>j. k \<le> j \<and> j \<le> c \<longrightarrow> snapshots ?s' j = None"
      using Cons.prems(1,2) by simp
    have c: "c \<le> counter ?s'" using Cons.prems(2) by simp
    show ?thesis unfolding run by (rule Cons.IH[OF inv c Cons.prems(3,4)])
  next
    case (RevertTo i)
    let ?s' = "snd (evm_revert i s)"
    have inv: "\<forall>j. k \<le> j \<and> j \<le> c \<longrightarrow> snapshots ?s' j = None"
      using Cons.prems(1) by (simp add: evm_revert_def revert_def split: option.splits)
    have c: "c \<le> counter ?s'"
      using Cons.prems(2) by (simp add: evm_revert_def revert_def split: option.splits)
    show ?thesis using Cons.IH[OF inv c Cons.prems(3,4)] RevertTo by simp
  next
    case (Change t)
    have inv: "\<forall>j. k \<le> j \<and> j \<le> c \<longrightarrow> snapshots (s\<lparr>current := t\<rparr>) j = None"
      using Cons.prems(1) by simp
    have c: "c \<le> counter (s\<lparr>current := t\<rparr>)" using Cons.prems(2) by simp
    show ?thesis using Cons.IH[OF inv c Cons.prems(3,4)] Change by simp
  qed
qed

lemma revert_unknown: "snapshots s j = None \<Longrightarrow> evm_revert j s = (False, s)"
  by (simp add: evm_revert_def revert_def)

lemma revert_discards:
  "fst (evm_revert k s) \<Longrightarrow> k \<le> j \<Longrightarrow> snapshots (snd (evm_revert k s)) j = None"
  by (simp add: evm_revert_def revert_def split: option.splits)

lemma revert_keeps_counter: "counter (snd (evm_revert k s)) = counter s"
  by (simp add: evm_revert_def revert_def split: option.splits)

text \<open>
  C2. In any run the ids that \<open>evm_snapshot\<close> returns are strictly increasing. After a
  successful \<open>evm_revert(k)\<close> the snapshot \<open>k\<close> and every snapshot with a greater id are
  gone, so that \<open>evm_revert(j)\<close> then returns false for every \<open>j \<ge> k\<close>; and the ids
  from \<open>k\<close> up to the last one issued stay consumed whatever snapshots, reverts and
  other changes come in between. An unknown id makes \<open>evm_revert\<close> return false and
  change nothing.
\<close>

theorem snapshot_ids_and_revert:
  assumes "fst (evm_revert k s)" and "snapshots s u = None"
  shows "sorted_wrt (<) (fst (run_snapshots ops s))
       \<and> (\<forall>j. k \<le> j \<longrightarrow>
             snapshots (snd (evm_revert k s)) j = None
             \<and> evm_revert j (snd (evm_revert k s)) = (False, snd (evm_revert k s)))
       \<and> (\<forall>j. k \<le> j \<and> j \<le> counter s \<longrightarrow>
             \<not> fst (evm_revert j (snd (run_snapshots ops' (snd (evm_revert k s))))))
       \<and> evm_revert u s = (False, s)"
proof -
  let ?s' = "snd (evm_revert k s)"
  have ids: "sorted_wrt (<) (fst (run_snapshots ops s))"
    using run_snapshots_ids[of ops s] by blast
  have now: "snapshots ?s' j = None \<and> evm_revert j ?s' = (False, ?s')" if "k \<le> j" for j
    using revert_discards[OF assms(1) that] revert_unknown by blast
  have later: "\<not> fst (evm_revert j (snd (run_snapshots ops' ?s')))"
    if "k \<le> j \<and> j \<le> counter s" for j
  proof -
    have inv: "\<forall>j. k \<le> j \<and> j \<le> counter s \<longrightarrow> snapshots ?s' j = None"
      using now by blast
    have c: "counter s \<le> counter ?s'" by (simp add: revert_keeps_counter)
    have "snapshots (snd (run_snapshots ops' ?s')) j = None"
      using run_snapshots_consumed[OF inv c] that by blast
    then show ?thesis by (simp add: revert_unknown)
  qed
  show ?thesis using ids now later revert_unknown[OF assms(2)] by blast
qed

theorem snapshot_ids_and_revert_witness:
  "fst (evm_revert 2 example_three_snapshots)
   \<and> sorted_wrt (<) (fst (run_snapshots [TakeSnapshot, RevertTo 2, TakeSnapshot, TakeSnapshot]
          example_three_snapshots))
   \<and> fst (run_snapshots [TakeSnapshot, RevertTo 2, TakeSnapshot, TakeSnapshot]
          example_three_snapshots) = [4, 5, 6]
   \<and> evm_revert 2 (snd (evm_revert 2 example_three_snapshots))
       = (False, snd (evm_revert 2 example_three_snapshots))
   \<and> \<not> fst (evm_revert 3 (snd (run_snapshots [TakeSnapshot, Change genesis_tuple]
          (snd (evm_revert 2 example_three_snapshots)))))
   \<and> evm_revert 9 example_three_snapshots = (False, example_three_snapshots)"
proof -
  let ?ops = "[TakeSnapshot, RevertTo 2, TakeSnapshot, TakeSnapshot]"
  let ?ops' = "[TakeSnapshot, Change genesis_tuple]"
  have ok: "fst (evm_revert 2 example_three_snapshots)"
    by (simp add: example_three_snapshots_def evm_revert_def revert_def evm_snapshot_def
        snapshot_def example_manager_def)
  have unknown: "snapshots example_three_snapshots 9 = None"
    by (simp add: example_three_snapshots_def evm_snapshot_def snapshot_def example_manager_def)
  have c: "counter example_three_snapshots = 3"
    by (simp add: example_three_snapshots_def evm_snapshot_def snapshot_def example_manager_def)
  note t = snapshot_ids_and_revert[OF ok unknown, of ?ops ?ops']
  have sorted: "sorted_wrt (<) (fst (run_snapshots ?ops example_three_snapshots))"
    by (rule t[THEN conjunct1])
  have two: "evm_revert 2 (snd (evm_revert 2 example_three_snapshots))
       = (False, snd (evm_revert 2 example_three_snapshots))"
    using t[THEN conjunct2, THEN conjunct1, THEN spec, of 2] by blast
  have "(2::nat) \<le> 3 \<and> 3 \<le> counter example_three_snapshots" unfolding c by simp
  then have three: "\<not> fst (evm_revert 3 (snd (run_snapshots ?ops'
          (snd (evm_revert 2 example_three_snapshots)))))"
    using t[THEN conjunct2, THEN conjunct2, THEN conjunct1, THEN spec, of 3] by blast
  have nine: "evm_revert 9 example_three_snapshots = (False, example_three_snapshots)"
    by (rule t[THEN conjunct2, THEN conjunct2, THEN conjunct2])
  have ids: "fst (run_snapshots ?ops example_three_snapshots) = [4, 5, 6]"
    by (simp add: example_three_snapshots_def evm_revert_def revert_def evm_snapshot_def
        snapshot_def example_manager_def)
  show ?thesis using ok sorted ids two three nine by blast
qed

section \<open>The miner's states\<close>

text \<open>
  C7. \<open>miner_start\<close> on a miner that is already mining changes nothing and returns
  true, with or without legacy instamining and strict failure reporting. \<open>miner_stop\<close>
  returns true and leaves the miner paused; the mining operation in flight is kept, and
  its completion commits the same batch as it would have without the stop.
\<close>

theorem miner_start_stop:
  "(miner bc = Mining \<longrightarrow>
      miner_start VM_EXCEPTION VM_EXCEPTIONS on_start legacy vmErrorsOnRPCResponse
        threads bc = (Inr True, bc))
   \<and> fst (miner_stop bc) = True
   \<and> miner (snd (miner_stop bc)) = Paused
   \<and> in_flight (snd (miner_stop bc)) = in_flight bc
   \<and> chain_state (finish_mining commit (snd (miner_stop bc)))
       = chain_state (finish_mining commit bc)
   \<and> in_flight (finish_mining commit (snd (miner_stop bc))) = None"
proof -
  have start: "miner_start VM_EXCEPTION VM_EXCEPTIONS on_start legacy
      vmErrorsOnRPCResponse threads bc = (Inr True, bc)" if "miner bc = Mining"
    using that by (simp add: miner_start_def resume_def)
  have stop: "miner_stop bc = (True, bc\<lparr>miner := Paused\<rparr>)"
    by (simp add: miner_stop_def pause_def)
  have fin: "chain_state (finish_mining commit (bc\<lparr>miner := Paused\<rparr>))
      = chain_state (finish_mining commit bc)"
    "in_flight (finish_mining commit (bc\<lparr>miner := Paused\<rparr>)) = None"
    by (simp_all add: finish_mining_def split: option.splits)
  show ?thesis using start fin unfolding stop by simp
qed

theorem miner_start_stop_witness:
  "miner_start ''VM Exception: '' ''Multiple VM Exceptions: '' example_on_start True True 1
      example_miner_chain = (Inr True, example_miner_chain)
   \<and> miner_start ''VM Exception: '' ''Multiple VM Exceptions: '' example_on_start False True 1
      example_miner_chain = (Inr True, example_miner_chain)
   \<and> miner_stop example_miner_chain = (True, example_miner_chain\<lparr>miner := Paused\<rparr>)
   \<and> committed_blocks (chain_state (finish_mining example_commit
         (snd (miner_stop example_miner_chain)))) = [[], [example_tx_ok]]"
proof -
  have mining: "miner example_miner_chain = Mining" by (simp add: example_miner_chain_def)
  note t = miner_start_stop[where bc = example_miner_chain and on_start = example_on_start
      and VM_EXCEPTION = "''VM Exception: ''" and VM_EXCEPTIONS = "''Multiple VM Exceptions: ''"
      and vmErrorsOnRPCResponse = True and threads = 1 and commit = example_commit]
  have a: "miner_start ''VM Exception: '' ''Multiple VM Exceptions: '' example_on_start True True 1
      example_miner_chain = (Inr True, example_miner_chain)"
    using t[of True, THEN conjunct1] mining by blast
  have b: "miner_start ''VM Exception: '' ''Multiple VM Exceptions: '' example_on_start False True 1
      example_miner_chain = (Inr True, example_miner_chain)"
    using t[of False, THEN conjunct1] mining by blast
  have c: "miner_stop example_miner_chain = (True, example_miner_chain\<lparr>miner := Paused\<rparr>)"
    by (simp add: miner_stop_def pause_def)
  have "chain_state (finish_mining example_commit (snd (miner_stop example_miner_chain)))
      = chain_state (finish_mining example_commit example_miner_chain)"
    using t[of True] by blast
  also have "committed_blocks \<dots> = [[], [example_tx_ok]]"
    by (simp add: finish_mining_def example_miner_chain_def example_commit_def example_chain_def)
  finally show ?thesis using a b c by simp
qed

section \<open>Speculative execution leaves the committed state alone\<close>

lemma untouched_refl: "untouched e e"
  by (simp add: untouched_def)

lemma untouched_trans: "untouched e e1 \<Longrightarrow> untouched e1 e2 \<Longrightarrow> untouched e e2"
  by (simp add: untouched_def)

lemma untouched_allocated:
  "untouched e e' \<Longrightarrow> canonical e < next_view e \<Longrightarrow> canonical e' < next_view e'"
  by (simp add: untouched_def)

lemma new_view_untouched:
  "canonical e < next_view e \<Longrightarrow> new_view contents e = (v, e1) \<Longrightarrow>
   v \<noteq> canonical e1 \<and> untouched e e1"
  by (auto simp: new_view_def untouched_def)

lemma run_in_view_untouched:
  "v \<noteq> canonical e \<Longrightarrow> run_in_view execute tx v e = (result, e') \<Longrightarrow>
   v \<noteq> canonical e' \<and> untouched e e'"
  by (auto simp: run_in_view_def untouched_def split: option.splits prod.splits)

lemma discard_untouched: "v \<noteq> canonical e \<Longrightarrow> untouched e (discard v e)"
  by (simp add: discard_def untouched_def)

lemma run_and_discard_untouched:
  assumes "canonical e < next_view e" and "new_view contents e = (v, e1)"
    and "run_in_view execute tx v e1 = (result, e2)"
  shows "untouched e (discard v e2)"
proof -
  have a: "v \<noteq> canonical e1" "untouched e e1"
    using new_view_untouched[OF assms(1,2)] by simp_all
  have b: "v \<noteq> canonical e2" "untouched e1 e2"
    using run_in_view_untouched[OF a(1) assms(3)] by simp_all
  have "untouched e2 (discard v e2)" by (rule discard_untouched[OF b(1)])
  then show ?thesis using a(2) b(2) untouched_trans by blast
qed

lemma simulateTransaction_untouched:
  assumes "canonical e < next_view e"
  shows "untouched e (snd (simulateTransaction execute tx parentBlock e))"
proof (cases "committed_roots e (h_stateRoot parentBlock)")
  case None
  then show ?thesis
    by (simp add: simulateTransaction_def copy_root_def untouched_refl)
next
  case (Some contents)
  obtain v e1 where nv: "new_view contents e = (v, e1)" by (cases "new_view contents e")
  obtain result e2 where rv: "run_in_view execute tx v e1 = (result, e2)"
    by (cases "run_in_view execute tx v e1")
  have "snd (simulateTransaction execute tx parentBlock e) = discard v e2"
    using Some nv rv by (simp add: simulateTransaction_def copy_root_def)
  then show ?thesis using run_and_discard_untouched[OF assms nv rv] by simp
qed

lemma run_candidate_untouched:
  assumes "canonical e < next_view e"
  shows "untouched e (snd (run_candidate vm_copy execute tx gas e))"
proof (cases "views e (canonical e)")
  case None
  then show ?thesis by (simp add: run_candidate_def vm_copy_def untouched_refl)
next
  case (Some contents)
  obtain v e1 where nv: "new_view contents e = (v, e1)" by (cases "new_view contents e")
  obtain result e2 where rv: "run_in_view execute (tx\<lparr>st_gas := gas\<rparr>) v e1 = (result, e2)"
    by (cases "run_in_view execute (tx\<lparr>st_gas := gas\<rparr>) v e1")
  have "snd (run_candidate vm_copy execute tx gas e) = discard v e2"
    using Some nv rv by (simp add: run_candidate_def vm_copy_def)
  then show ?thesis using run_and_discard_untouched[OF assms nv rv] by simp
qed

lemma gas_search_untouched_aux:
  "g = vm_copy \<Longrightarrow> canonical e < next_view e \<Longrightarrow>
   untouched e (snd (gas_search g execute tx lo hi e))"
proof (induction g execute tx lo hi e rule: gas_search.induct)
  case (1 g execute tx lo hi e)
  note g = "1.prems"(1) and alloc = "1.prems"(2)
  show ?case
  proof (cases "hi \<le> lo + 1")
    case True
    then show ?thesis by (subst gas_search.simps) (simp add: untouched_refl)
  next
    case False
    let ?mid = "(lo + hi) div 2"
    obtain result e' where rc: "run_candidate g execute tx ?mid e = (result, e')"
      by (cases "run_candidate g execute tx ?mid e")
    have u: "untouched e e'"
      using run_candidate_untouched[OF alloc, of execute tx ?mid] rc g by simp
    have al: "canonical e' < next_view e'" by (rule untouched_allocated[OF u alloc])
    show ?thesis
    proof (cases "result = OutOfGas")
      case True
      have "untouched e' (snd (gas_search g execute tx ?mid hi e'))"
        using "1.IH"(1)[OF False refl rc[symmetric] True g al] .
      moreover have "gas_search g execute tx lo hi e = gas_search g execute tx ?mid hi e'"
        using False rc True by (subst gas_search.simps) simp
      ultimately show ?thesis using u untouched_trans by metis
    next
      case notOOG: False
      have "untouched e' (snd (gas_search g execute tx lo ?mid e'))"
        using "1.IH"(2)[OF False refl rc[symmetric] notOOG g al] .
      moreover have "gas_search g execute tx lo hi e = gas_search g execute tx lo ?mid e'"
        using False rc notOOG by (subst gas_search.simps) simp
      ultimately show ?thesis using u untouched_trans by metis
    qed
  qed
qed

lemma gas_search_untouched:
  "canonical e < next_view e \<Longrightarrow> untouched e (snd (gas_search vm_copy execute tx lo hi e))"
  by (rule gas_search_untouched_aux[OF refl])

lemma estimateGas_untouched:
  assumes "canonical e < next_view e"
  shows "untouched e (snd (estimateGas vm_copy execute tx e))"
proof -
  obtain result e1 where rc: "run_candidate vm_copy execute tx (st_gas tx) e = (result, e1)"
    by (cases "run_candidate vm_copy execute tx (st_gas tx) e")
  have u: "untouched e e1"
    using run_candidate_untouched[OF assms, of execute tx "st_gas tx"] rc by simp
  show ?thesis
  proof (cases result)
    case (Returned returnData)
    have al: "canonical e1 < next_view e1" by (rule untouched_allocated[OF u assms])
    have "snd (estimateGas vm_copy execute tx e)
        = snd (gas_search vm_copy execute tx 0 (st_gas tx) e1)"
      using rc Returned by (simp add: estimateGas_def split: prod.splits)
    then show ?thesis
      using gas_search_untouched[OF al, of execute tx 0 "st_gas tx"] u untouched_trans by metis
  next
    case (Reverted reason)
    then show ?thesis using rc u by (simp add: estimateGas_def)
  next
    case OutOfGas
    then show ?thesis using rc u by (simp add: estimateGas_def)
  qed
qed

lemma eth_call_untouched:
  "canonical e < next_view e \<Longrightarrow>
   untouched e (snd (eth_call execute options transaction blockNumber e))"
  by (cases "parent_header e blockNumber")
    (simp_all add: eth_call_def Let_def untouched_refl simulateTransaction_untouched)

lemma eth_estimateGas_untouched:
  "canonical e < next_view e \<Longrightarrow>
   untouched e (snd (eth_estimateGas execute options transaction blockNumber e))"
  by (cases "parent_header e blockNumber")
    (simp_all add: eth_estimateGas_def Let_def untouched_refl estimateGas_untouched)

lemma untouched_reads:
  assumes "untouched e e'"
  shows "getAccount e' address r = getAccount e address r"
    and "getStorageAt e' address slot r = getStorageAt e address slot r"
    and "views e' (canonical e') = views e (canonical e)"
  using assms unfolding untouched_def getAccount_def getStorageAt_def read_at_def
  by (auto split: sum.splits option.splits)

text \<open>
  C1. Whatever the call object, the block reference and the interpreter, \<open>eth_call\<close>
  and \<open>eth_estimateGas\<close> run in views of their own and leave the engine such that
  \<open>getAccount\<close> and \<open>getStorageAt\<close>, for every address, slot and block reference, give
  what they gave before, and the canonical view holds the contents it held. The
  canonical view has a handle that was allocated, so a fresh handle is another one.
\<close>

theorem speculative_calls_leave_state:
  assumes "canonical e < next_view e"
  shows "getAccount (snd (eth_call execute options transaction blockNumber e)) address r
           = getAccount e address r
       \<and> getStorageAt (snd (eth_call execute options transaction blockNumber e)) address slot r
           = getStorageAt e address slot r
       \<and> views (snd (eth_call execute options transaction blockNumber e))
             (canonical (snd (eth_call execute options transaction blockNumber e)))
           = views e (canonical e)
       \<and> getAccount (snd (eth_estimateGas execute options transaction blockNumber e)) address r
           = getAccount e address r
       \<and> getStorageAt (snd (eth_estimateGas execute options transaction blockNumber e))
             address slot r
           = getStorageAt e address slot r
       \<and> views (snd (eth_estimateGas execute options transaction blockNumber e))
             (canonical (snd (eth_estimateGas execute options transaction blockNumber e)))
           = views e (canonical e)"
proof -
  note call = untouched_reads[OF eth_call_untouched[OF assms,
        of execute options transaction blockNumber]]
  note estimate = untouched_reads[OF eth_estimateGas_untouched[OF assms,
        of execute options transaction blockNumber]]
  show ?thesis by (simp add: call estimate)
qed

theorem speculative_calls_leave_state_witness:
  "fst (eth_call example_execute example_call_options example_call_object Latest example_engine)
     = Inr ''0x01''
   \<and> getAccount (snd (eth_call example_execute example_call_options example_call_object Latest
        example_engine)) ''0xa1'' Latest = Inr (Some (AccountRecord 0 100))
   \<and> getStorageAt (snd (eth_call example_execute example_call_options example_call_object Latest
        example_engine)) ''0xa1'' 0 Latest = Inr None
   \<and> fst (eth_estimateGas example_execute example_call_options example_call_object Latest
        example_engine) = Inr 3
   \<and> getAccount (snd (eth_estimateGas example_execute example_call_options example_call_object
        Latest example_engine)) ''0xa1'' Latest = Inr (Some (AccountRecord 0 100))
   \<and> views (snd (eth_estimateGas example_execute example_call_options example_call_object
        Latest example_engine)) 0 = Some example_contents"
proof -
  have alloc: "canonical example_engine < next_view example_engine"
    by (simp add: example_engine_def)
  note t = speculative_calls_leave_state[OF alloc, of example_execute example_call_options
      example_call_object Latest "''0xa1''" Latest 0]
  have before: "getAccount example_engine ''0xa1'' Latest = Inr (Some (AccountRecord 0 100))"
    "getStorageAt example_engine ''0xa1'' 0 Latest = Inr None"
    "views example_engine (canonical example_engine) = Some example_contents"
    by (simp_all add: getAccount_def getStorageAt_def read_at_def example_engine_def
        example_header_def example_contents_def)
  have c: "canonical (snd (eth_estimateGas example_execute example_call_options
      example_call_object Latest example_engine)) = 0"
    using eth_estimateGas_untouched[OF alloc, of example_execute example_call_options
        example_call_object Latest]
    by (simp add: untouched_def example_engine_def)
  have call: "fst (eth_call example_execute example_call_options example_call_object Latest
      example_engine) = Inr ''0x01''"
    by (simp add: eth_call_def parent_header_def simulateTransaction_def copy_root_def
        new_view_def run_in_view_def example_engine_def example_header_def example_execute_def
        example_call_options_def example_call_object_def)
  have est: "fst (eth_estimateGas example_execute example_call_options example_call_object Latest
      example_engine) = Inr 3"
    by (simp add: eth_estimateGas_def parent_header_def estimateGas_def run_candidate_def
        vm_copy_def new_view_def run_in_view_def discard_def gas_search.simps
        example_engine_def example_header_def example_execute_def
        example_call_options_def example_call_object_def)
  show ?thesis using t before c call est by simp
qed

end
